theory Spec2Isabelle
  imports Main "HOL-Library.Word"
begin

unbundle bit_operations_syntax

section \<open>Go values: outcomes of a call, big integers\<close>

text \<open>
  A Go call in this development ends in one of three ways: it returns its value, it
  returns a non-nil \<open>error\<close> (built by \<open>errors.New\<close> from a message), or it aborts
  with a run-time panic. The panics that the embedded code can raise are a nil pointer
  dereference and the division by zero of \<open>big.Int.Mod\<close>.
\<close>

datatype panic = NilPointerDereference | DivisionByZero

datatype 'a outcome = Ok 'a | Err string | Panic panic

fun is_Ok :: "'a outcome \<Rightarrow> bool" where
  "is_Ok (Ok _) = True"
| "is_Ok _ = False"



text \<open>
  \<open>*big.Int\<close> values are unbounded integers (\<open>int\<close>). \<open>big.Int.Xor\<close> is the bitwise
  exclusive or on the two's complement representation, which is \<open>XOR\<close> on \<open>int\<close>.
  \<open>big.Int.Mod\<close> is the Euclidean modulus: the result lies in \<open>[0, |y|)\<close>, and the
  call panics when \<open>y = 0\<close>.
\<close>

definition big_Mod :: "int \<Rightarrow> int \<Rightarrow> int outcome" where
  "big_Mod x y = (if y = 0 then Panic DivisionByZero else Ok (x mod \<bar>y\<bar>))"

text \<open>
  \<open>big.Int.Bytes\<close> is the big-endian base-256 representation of the absolute value,
  without leading zero bytes (so zero is the empty slice); \<open>big.Int.SetBytes\<close> reads
  a big-endian unsigned integer.
\<close>

type_synonym bytes = "8 word list"

fun nat_Bytes :: "nat \<Rightarrow> bytes" where
  "nat_Bytes n = (if n = 0 then [] else nat_Bytes (n div 256) @ [of_nat (n mod 256)])"

declare nat_Bytes.simps [simp del]

definition Bytes :: "int \<Rightarrow> bytes" where
  "Bytes x = nat_Bytes (nat \<bar>x\<bar>)"

definition SetBytes :: "bytes \<Rightarrow> int" where
  "SetBytes bs = int (foldl (\<lambda>acc b. acc * 256 + unat b) 0 bs)"

section \<open>Group elements and the group interface\<close>

text \<open>
  Modelled from the spec: the declarations of package \<open>types\<close> are not among the
  sources. A group element is a point given by its coordinates; the sources read and
  write them as the fields \<open>X\<close> and \<open>Y\<close> of \<open>types.ECGroupElement\<close>. An
  \<open>ECTriple\<close> holds three group elements in the fields \<open>A\<close>, \<open>B\<close>, \<open>C\<close>;
  \<open>types.NewECTriple\<close> fills them in this order, as the verifier's comment
  (``contains x1, a1, b1'') and its reading of \<open>A\<close> as \<open>x\<close>, \<open>B\<close> as the base and
  \<open>C\<close> as the power show.
\<close>

record ECGroupElement =
  X :: int
  Y :: int

definition NewECGroupElement :: "int \<Rightarrow> int \<Rightarrow> ECGroupElement" where
  "NewECGroupElement x y = \<lparr>X = x, Y = y\<rparr>"

record ECTriple =
  A :: ECGroupElement
  B :: ECGroupElement
  C :: ECGroupElement

definition NewECTriple :: "ECGroupElement \<Rightarrow> ECGroupElement \<Rightarrow> ECGroupElement \<Rightarrow> ECTriple" where
  "NewECTriple a b c = \<lparr>A = a, B = b, C = c\<rparr>"

text \<open>
  Modelled from the spec: the package \<open>crypto/dlog\<close> (the type \<open>dlog.ECDLog\<close> and the
  curve arithmetic behind it) is not among the sources. The specification treats it as a
  provided group with the operations \<open>order\<close>, \<open>baseExp\<close>, \<open>exp\<close>, \<open>mul\<close> and
  \<open>inv\<close>. The embedding takes these operations as the fields of a record, with the
  signatures the callers use: coordinates in, a pair of coordinates out.
\<close>

record ECDLog =
  OrderOfSubgroup :: int
  ExponentiateBaseG :: "int \<Rightarrow> int \<times> int"
  Exponentiate :: "int \<Rightarrow> int \<Rightarrow> int \<Rightarrow> int \<times> int"
  Multiply :: "int \<Rightarrow> int \<Rightarrow> int \<Rightarrow> int \<Rightarrow> int \<times> int"
  Inverse :: "int \<Rightarrow> int \<Rightarrow> int \<times> int"

definition GetOrderOfSubgroup :: "ECDLog \<Rightarrow> int" where
  "GetOrderOfSubgroup dlog = OrderOfSubgroup dlog"

section \<open>Pedersen commitments over an elliptic-curve group\<close>

text \<open>
  The committer of \<open>crypto/commitments/pedersen_ec.go\<close>. Pointer fields that the
  constructor leaves nil are options. Every method takes the object and returns it
  together with the outcome, so that what a call writes is visible. The value that
  \<open>common.GetRandomInt\<close> samples is an argument of the method that draws it, and the
  pointers a caller passes in are taken to be non-nil.
\<close>

record PedersenECCommitter =
  c_dLog :: ECDLog
  c_h :: "ECGroupElement option"
  c_committedValue :: "int option"
  c_r :: "int option"

definition NewPedersenECCommitter :: "('curve \<Rightarrow> ECDLog) \<Rightarrow> 'curve \<Rightarrow> PedersenECCommitter" where
  "NewPedersenECCommitter NewECDLog curveType =
     \<lparr>c_dLog = NewECDLog curveType, c_h = None, c_committedValue = None, c_r = None\<rparr>"

definition SetH :: "PedersenECCommitter \<Rightarrow> ECGroupElement \<Rightarrow> PedersenECCommitter" where
  "SetH committer el = committer\<lparr>c_h := Some el\<rparr>"

definition out_of_range_msg :: string where
  "out_of_range_msg = ''the committed value needs to be in Z_q (order of a base point)''"

definition GetCommitMsg ::
  "PedersenECCommitter \<Rightarrow> int \<Rightarrow> int \<Rightarrow> PedersenECCommitter \<times> ECGroupElement outcome" where
  "GetCommitMsg committer val rnd =
     (if val > OrderOfSubgroup (c_dLog committer) \<or> val < 0
      then (committer, Err out_of_range_msg)
      else
        let committer' = committer\<lparr>c_r := Some rnd, c_committedValue := Some val\<rparr>;
            (x1, y1) = ExponentiateBaseG (c_dLog committer') val
        in case c_h committer' of
             None \<Rightarrow> (committer', Panic NilPointerDereference)
           | Some el \<Rightarrow>
               let (x2, y2) = Exponentiate (c_dLog committer') (X el) (Y el) rnd;
                   (c1, c2) = Multiply (c_dLog committer') x1 y1 x2 y2
               in (committer', Ok \<lparr>X = c1, Y = c2\<rparr>))"

definition GetDecommitMsg ::
  "PedersenECCommitter \<Rightarrow> PedersenECCommitter \<times> int option \<times> int option" where
  "GetDecommitMsg committer = (committer, c_committedValue committer, c_r committer)"

definition VerifyTrapdoor :: "PedersenECCommitter \<Rightarrow> int \<Rightarrow> PedersenECCommitter \<times> bool outcome" where
  "VerifyTrapdoor committer trapdoor =
     (let (hx, hy) = ExponentiateBaseG (c_dLog committer) trapdoor
      in case c_h committer of
           None \<Rightarrow> (committer, Panic NilPointerDereference)
         | Some el \<Rightarrow> (committer, Ok (if hx = X el \<and> hy = Y el then True else False)))"

text \<open>
  The receiver: its constructor draws the trapdoor \<open>a\<close>, computes \<open>h = g^a\<close> and sets
  both; only the commitment is nil until \<open>SetCommitment\<close> stores it.
\<close>

record PedersenECReceiver =
  s_dLog :: ECDLog
  s_a :: int
  s_h :: ECGroupElement
  s_commitment :: "ECGroupElement option"

definition NewPedersenECReceiver :: "('curve \<Rightarrow> ECDLog) \<Rightarrow> 'curve \<Rightarrow> int \<Rightarrow> PedersenECReceiver" where
  "NewPedersenECReceiver NewECDLog curve rnd =
     (let dlog = NewECDLog curve;
          a = rnd;
          (x, y) = ExponentiateBaseG dlog a
      in \<lparr>s_dLog = dlog, s_a = a, s_h = \<lparr>X = x, Y = y\<rparr>, s_commitment = None\<rparr>)"

definition GetH :: "PedersenECReceiver \<Rightarrow> PedersenECReceiver \<times> ECGroupElement" where
  "GetH s = (s, s_h s)"

definition GetTrapdoor :: "PedersenECReceiver \<Rightarrow> PedersenECReceiver \<times> int" where
  "GetTrapdoor s = (s, s_a s)"

definition SetCommitment :: "PedersenECReceiver \<Rightarrow> ECGroupElement \<Rightarrow> PedersenECReceiver" where
  "SetCommitment s el = s\<lparr>s_commitment := Some el\<rparr>"

definition CheckDecommitment ::
  "PedersenECReceiver \<Rightarrow> int \<Rightarrow> int \<Rightarrow> PedersenECReceiver \<times> bool outcome" where
  "CheckDecommitment s rnd val =
     (let (x1, y1) = ExponentiateBaseG (s_dLog s) val;
          (x2, y2) = Exponentiate (s_dLog s) (X (s_h s)) (Y (s_h s)) rnd;
          (c1, c2) = Multiply (s_dLog s) x1 y1 x2 y2
      in case s_commitment s of
           None \<Rightarrow> (s, Panic NilPointerDereference)
         | Some cm \<Rightarrow> (s, Ok (if c1 = X cm \<and> c2 = Y cm then True else False)))"

text \<open>
  The operations a caller can apply to a receiver, and their effect on the object
  (a call that panics leaves the object as it was when the panic was raised).
\<close>

datatype receiver_call =
    Call_GetH
  | Call_GetTrapdoor
  | Call_SetCommitment ECGroupElement
  | Call_CheckDecommitment int int

fun receiver_step :: "PedersenECReceiver \<Rightarrow> receiver_call \<Rightarrow> PedersenECReceiver" where
  "receiver_step s Call_GetH = fst (GetH s)"
| "receiver_step s Call_GetTrapdoor = fst (GetTrapdoor s)"
| "receiver_step s (Call_SetCommitment el) = SetCommitment s el"
| "receiver_step s (Call_CheckDecommitment rnd val) = fst (CheckDecommitment s rnd val)"

definition receiver_run :: "PedersenECReceiver \<Rightarrow> receiver_call list \<Rightarrow> PedersenECReceiver" where
  "receiver_run s calls = foldl receiver_step s calls"

section \<open>Partial knowledge of a discrete logarithm\<close>

text \<open>
  The prover and the verifier of
  \<open>crypto/zkp/primitives/dlogproofs/partial_dlog_knowledge_ec.go\<close>. The constructors
  set \<open>DLog\<close> only; every other pointer field is nil (\<open>None\<close>) until a method stores
  it, and \<open>ord\<close> starts at zero. Sampled values (\<open>r1\<close>, \<open>c2\<close>, \<open>z2\<close>, the ordering
  bit and the verifier's challenge) are arguments. The pointers a caller passes in
  (scalars, group elements, triples) are taken to be non-nil.
\<close>

record PartialECDLogProver =
  p_DLog :: ECDLog
  p_secret1 :: "int option"
  p_a1 :: "ECGroupElement option"
  p_a2 :: "ECGroupElement option"
  p_r1 :: "int option"
  p_c2 :: "int option"
  p_z2 :: "int option"
  p_ord :: int

definition NewPartialECDLogProver :: "ECDLog \<Rightarrow> PartialECDLogProver" where
  "NewPartialECDLogProver dlog =
     \<lparr>p_DLog = dlog, p_secret1 = None, p_a1 = None, p_a2 = None,
      p_r1 = None, p_c2 = None, p_z2 = None, p_ord = 0\<rparr>"

definition GetProofRandomData ::
  "PartialECDLogProver \<Rightarrow> int \<Rightarrow> ECGroupElement \<Rightarrow> ECGroupElement \<Rightarrow> ECGroupElement \<Rightarrow>
   ECGroupElement \<Rightarrow> int \<Rightarrow> int \<Rightarrow> int \<Rightarrow> int \<Rightarrow> PartialECDLogProver \<times> ECTriple \<times> ECTriple" where
  "GetProofRandomData prover secret1 a1 b1 a2 b2 rnd_r1 rnd_c2 rnd_z2 rnd_ord =
     (let prover1 = prover\<lparr>p_a1 := Some a1, p_a2 := Some a2, p_secret1 := Some secret1\<rparr>;
          r1 = rnd_r1;
          c2 = rnd_c2;
          z2 = rnd_z2;
          prover2 = prover1\<lparr>p_r1 := Some r1, p_c2 := Some c2, p_z2 := Some z2\<rparr>;
          (x1X, x1Y) = Exponentiate (p_DLog prover2) (X a1) (Y a1) r1;
          (x2X, x2Y) = Exponentiate (p_DLog prover2) (X a2) (Y a2) z2;
          (b2ToC2X, b2ToC2Y) = Exponentiate (p_DLog prover2) (X b2) (Y b2) c2;
          (b2ToC2InvX, b2ToC2InvY) = Inverse (p_DLog prover2) b2ToC2X b2ToC2Y;
          (x2X', x2Y') = Multiply (p_DLog prover2) x2X x2Y b2ToC2InvX b2ToC2InvY;
          x1 = NewECGroupElement x1X x1Y;
          x2 = NewECGroupElement x2X' x2Y';
          ord = rnd_ord;
          triple1 = NewECTriple x1 a1 b1;
          triple2 = NewECTriple x2 a2 b2
      in if ord = 0
         then (prover2\<lparr>p_ord := 0\<rparr>, triple1, triple2)
         else (prover2\<lparr>p_ord := 1\<rparr>, triple2, triple1))"

text \<open>
  \<open>GetProofData\<close> dereferences \<open>c2\<close>, \<open>secret1\<close> and \<open>r1\<close>, in this order, and
  hands \<open>z2\<close> back without reading it. All four are written by \<open>GetProofRandomData\<close>
  and by nothing else, so \<open>z2\<close> is nil only where \<open>c2\<close> is; the embedding gives the
  remaining combination the same panic.
\<close>

definition GetProofData ::
  "PartialECDLogProver \<Rightarrow> int \<Rightarrow> PartialECDLogProver \<times> (int \<times> int \<times> int \<times> int) outcome" where
  "GetProofData prover challenge =
     (case (p_c2 prover, p_secret1 prover, p_r1 prover, p_z2 prover) of
        (Some c2, Some secret1, Some r1, Some z2) \<Rightarrow>
          (let c1 = c2 XOR challenge
           in case big_Mod (c1 * secret1 + r1) (GetOrderOfSubgroup (p_DLog prover)) of
                Ok z1 \<Rightarrow>
                  if p_ord prover = 0
                  then (prover, Ok (c1, z1, c2, z2))
                  else (prover, Ok (c2, z2, c1, z1))
              | Err msg \<Rightarrow> (prover, Err msg)
              | Panic p \<Rightarrow> (prover, Panic p))
      | _ \<Rightarrow> (prover, Panic NilPointerDereference))"

record PartialECDLogVerifier =
  v_DLog :: ECDLog
  v_triple1 :: "ECTriple option"
  v_triple2 :: "ECTriple option"
  v_challenge :: "int option"

definition NewPartialECDLogVerifier :: "ECDLog \<Rightarrow> PartialECDLogVerifier" where
  "NewPartialECDLogVerifier dlog =
     \<lparr>v_DLog = dlog, v_triple1 = None, v_triple2 = None, v_challenge = None\<rparr>"

definition SetProofRandomData ::
  "PartialECDLogVerifier \<Rightarrow> ECTriple \<Rightarrow> ECTriple \<Rightarrow> PartialECDLogVerifier" where
  "SetProofRandomData verifier triple1 triple2 =
     verifier\<lparr>v_triple1 := Some triple1, v_triple2 := Some triple2\<rparr>"

definition GetChallenge :: "PartialECDLogVerifier \<Rightarrow> int \<Rightarrow> PartialECDLogVerifier \<times> int" where
  "GetChallenge verifier rnd =
     (let challenge = rnd
      in (verifier\<lparr>v_challenge := Some challenge\<rparr>, challenge))"

definition verifyTriple ::
  "PartialECDLogVerifier \<Rightarrow> ECTriple option \<Rightarrow> int \<Rightarrow> int \<Rightarrow> PartialECDLogVerifier \<times> bool outcome" where
  "verifyTriple verifier triple challenge z =
     (case triple of
        None \<Rightarrow> (verifier, Panic NilPointerDereference)
      | Some t \<Rightarrow>
          let (left1, left2) = Exponentiate (v_DLog verifier) (X (B t)) (Y (B t)) z;
              (r1, r2) = Exponentiate (v_DLog verifier) (X (C t)) (Y (C t)) challenge;
              (right1, right2) = Multiply (v_DLog verifier) r1 r2 (X (A t)) (Y (A t))
          in (verifier, Ok (left1 = right1 \<and> left2 = right2)))"

definition Verify ::
  "PartialECDLogVerifier \<Rightarrow> int \<Rightarrow> int \<Rightarrow> int \<Rightarrow> int \<Rightarrow> PartialECDLogVerifier \<times> bool outcome" where
  "Verify verifier c1 z1 c2 z2 =
     (let c = c1 XOR c2
      in case v_challenge verifier of
           None \<Rightarrow> (verifier, Panic NilPointerDereference)
         | Some challenge \<Rightarrow>
             if c \<noteq> challenge then (verifier, Ok False)
             else
               (case verifyTriple verifier (v_triple1 verifier) c1 z1 of
                  (verifier1, Ok verified1) \<Rightarrow>
                    (case verifyTriple verifier1 (v_triple2 verifier1) c2 z2 of
                       (verifier2, Ok verified2) \<Rightarrow> (verifier2, Ok (verified1 \<and> verified2))
                     | (verifier2, Err msg) \<Rightarrow> (verifier2, Err msg)
                     | (verifier2, Panic p) \<Rightarrow> (verifier2, Panic p))
                | (verifier1, Err msg) \<Rightarrow> (verifier1, Err msg)
                | (verifier1, Panic p) \<Rightarrow> (verifier1, Panic p)))"

definition ProvePartialECDLogKnowledge ::
  "ECDLog \<Rightarrow> int \<Rightarrow> ECGroupElement \<Rightarrow> ECGroupElement \<Rightarrow> ECGroupElement \<Rightarrow>
   int \<Rightarrow> int \<Rightarrow> int \<Rightarrow> int \<Rightarrow> int \<Rightarrow> bool outcome" where
  "ProvePartialECDLogKnowledge dlog secret1 a1 a2 b2 rnd_r1 rnd_c2 rnd_z2 rnd_ord rnd_e =
     (let prover = NewPartialECDLogProver dlog;
          verifier = NewPartialECDLogVerifier dlog;
          (b1X, b1Y) = Exponentiate (p_DLog prover) (X a1) (Y a1) secret1;
          b1 = NewECGroupElement b1X b1Y;
          (prover1, triple1, triple2) =
             GetProofRandomData prover secret1 a1 b1 a2 b2 rnd_r1 rnd_c2 rnd_z2 rnd_ord;
          verifier1 = SetProofRandomData verifier triple1 triple2;
          (verifier2, challenge) = GetChallenge verifier1 rnd_e
      in case GetProofData prover1 challenge of
           (prover2, Ok (c1, z1, c2, z2)) \<Rightarrow> snd (Verify verifier2 c1 z1 c2 z2)
         | (prover2, Err msg) \<Rightarrow> Err msg
         | (prover2, Panic p) \<Rightarrow> Panic p)"

section \<open>Wire messages, the Schnorr server and the certificate client\<close>

text \<open>
  The enumerations of \<open>protobuf/enums.proto\<close>, under the names the generated Go code
  gives their values, and the protocol type of package \<open>types\<close>.
\<close>

datatype SchemaType =
    SchemaType_PEDERSEN
  | SchemaType_PEDERSEN_EC
  | SchemaType_SCHNORR
  | SchemaType_SCHNORR_EC
  | SchemaType_CSPAILLIER
  | SchemaType_PSEUDONYMSYS_CA
  | SchemaType_PSEUDONYMSYS_NYM_GEN
  | SchemaType_PSEUDONYMSYS_ISSUE_CREDENTIAL
  | SchemaType_PSEUDONYMSYS_TRANSFER_CREDENTIAL
  | SchemaType_PSEUDONYMSYS_CA_EC
  | SchemaType_PSEUDONYMSYS_NYM_GEN_EC
  | SchemaType_PSEUDONYMSYS_ISSUE_CREDENTIAL_EC
  | SchemaType_PSEUDONYMSYS_TRANSFER_CREDENTIAL_EC
  | SchemaType_QR
  | SchemaType_QNR

datatype SchemaVariant = SchemaVariant_SIGMA | SchemaVariant_ZKP | SchemaVariant_ZKPOK

datatype ProtocolType = Sigma | ZKP | ZKPOK

text \<open>
  Modelled from the spec: the message types of package \<open>protobuf\<close> are generated code
  that is not among the sources. The specification names them as a tagged union; their
  fields are the ones the server and the client read and write. A field the code leaves
  out of a struct literal has its zero value.
\<close>

record pb_ECGroupElement =
  pb_X :: bytes
  pb_Y :: bytes

record SchnorrECProofRandomData =
  ecrd_X :: pb_ECGroupElement
  ecrd_A :: pb_ECGroupElement
  ecrd_B :: pb_ECGroupElement

record SchnorrProofRandomData =
  rd_X :: bytes
  rd_A :: bytes
  rd_B :: bytes

record PedersenDecommitment =
  pd_X :: bytes
  pd_R :: bytes

record SchnorrProofData =
  spd_Z :: bytes
  spd_Trapdoor :: bytes

record pb_CACertificate =
  pb_BlindedA :: bytes
  pb_BlindedB :: bytes
  pb_R :: bytes
  pb_S :: bytes

datatype Content =
    Content_nil
  | Message_EcGroupElement pb_ECGroupElement
  | Message_SchnorrEcProofRandomData SchnorrECProofRandomData
  | Message_SchnorrProofRandomData SchnorrProofRandomData
  | Message_PedersenDecommitment PedersenDecommitment
  | Message_SchnorrProofData SchnorrProofData
  | Message_Status bool
  | Message_Bigint bytes
  | Message_PseudonymsysCaCertificate pb_CACertificate

record Message =
  ClientId :: "32 word"
  Schema :: SchemaType
  SchemaVariant :: SchemaVariant
  Content :: Content

definition Message_of :: "Content \<Rightarrow> Message" where
  "Message_of content =
     \<lparr>ClientId = 0, Schema = SchemaType_PEDERSEN, SchemaVariant = SchemaVariant_SIGMA,
      Content = content\<rparr>"

text \<open>The getters of a message: nil (\<open>None\<close>) when the content is of another type.\<close>

fun GetEcGroupElement :: "Message \<Rightarrow> pb_ECGroupElement option" where
  "GetEcGroupElement req =
     (case Content req of Message_EcGroupElement el \<Rightarrow> Some el | _ \<Rightarrow> None)"

fun GetSchnorrEcProofRandomData :: "Message \<Rightarrow> SchnorrECProofRandomData option" where
  "GetSchnorrEcProofRandomData req =
     (case Content req of Message_SchnorrEcProofRandomData d \<Rightarrow> Some d | _ \<Rightarrow> None)"

fun GetSchnorrProofData :: "Message \<Rightarrow> SchnorrProofData option" where
  "GetSchnorrProofData req =
     (case Content req of Message_SchnorrProofData d \<Rightarrow> Some d | _ \<Rightarrow> None)"

fun GetBigint :: "Message \<Rightarrow> bytes option" where
  "GetBigint resp = (case Content resp of Message_Bigint x1 \<Rightarrow> Some x1 | _ \<Rightarrow> None)"

fun GetPseudonymsysCaCertificate :: "Message \<Rightarrow> pb_CACertificate option" where
  "GetPseudonymsysCaCertificate resp =
     (case Content resp of Message_PseudonymsysCaCertificate cert \<Rightarrow> Some cert | _ \<Rightarrow> None)"

text \<open>
  Modelled from the spec: the conversions of package \<open>types\<close> between group elements and
  their wire form. Points travel as coordinate pairs of big-endian unsigned integers.
\<close>

definition ToECGroupElement :: "pb_ECGroupElement \<Rightarrow> ECGroupElement" where
  "ToECGroupElement el = \<lparr>X = SetBytes (pb_X el), Y = SetBytes (pb_Y el)\<rparr>"

definition ToPbECGroupElement :: "ECGroupElement \<Rightarrow> pb_ECGroupElement" where
  "ToPbECGroupElement el = \<lparr>pb_X = Bytes (X el), pb_Y = Bytes (Y el)\<rparr>"

text \<open>
  What \<open>server/schnorr_ec.go\<close> calls and the sources do not hold: the Schnorr verifier of
  package \<open>dlogproofs\<close> (over a verifier state \<open>'v\<close>) and the server's \<open>send\<close> and
  \<open>receive\<close> on a stream (over a stream state \<open>'st\<close>). They are parameters. \<open>send\<close>
  returns the error or nil, \<open>receive\<close> the message or the error; \<open>GetChallenge\<close>
  returns the challenge and the commitment randomness, which may be nil.
\<close>

record ('v, 'st, 'curve) server_calls =
  sv_NewSchnorrECVerifier :: "'curve \<Rightarrow> ProtocolType \<Rightarrow> 'v"
  sv_GetOpeningMsgReply :: "'v \<Rightarrow> ECGroupElement \<Rightarrow> 'v \<times> ECGroupElement"
  sv_SetProofRandomData :: "'v \<Rightarrow> ECGroupElement \<Rightarrow> ECGroupElement \<Rightarrow> ECGroupElement \<Rightarrow> 'v"
  sv_GetChallenge :: "'v \<Rightarrow> 'v \<times> int \<times> int option"
  sv_Verify :: "'v \<Rightarrow> int \<Rightarrow> int \<Rightarrow> 'v \<times> bool"
  srv_send :: "'st \<Rightarrow> Message \<Rightarrow> 'st \<times> string option"
  srv_receive :: "'st \<Rightarrow> 'st \<times> Message outcome"

text \<open>
  The server's run of the Schnorr protocol. The result is the stream, the messages
  handed to \<open>send\<close> in order, and the outcome (\<open>Ok ()\<close> is the nil error).
\<close>

definition SchnorrEC_proof ::
  "('v, 'st, 'curve) server_calls \<Rightarrow> 'v \<Rightarrow> Message \<Rightarrow> 'st \<Rightarrow> Message list \<Rightarrow>
   'st \<times> Message list \<times> unit outcome" where
  "SchnorrEC_proof calls verifier req stream sent =
     (case GetSchnorrEcProofRandomData req of
        None \<Rightarrow> (stream, sent, Panic NilPointerDereference)
      | Some sProofRandData \<Rightarrow>
          let x = ToECGroupElement (ecrd_X sProofRandData);
              a = ToECGroupElement (ecrd_A sProofRandData);
              b = ToECGroupElement (ecrd_B sProofRandData);
              verifier1 = sv_SetProofRandomData calls verifier x a b;
              (verifier2, challenge, r2) = sv_GetChallenge calls verifier1;
              r2' = (case r2 of None \<Rightarrow> 0 | Some v \<Rightarrow> v);
              resp = Message_of (Message_PedersenDecommitment
                       \<lparr>pd_X = Bytes challenge, pd_R = Bytes r2'\<rparr>)
          in (case srv_send calls stream resp of
                (stream1, Some err) \<Rightarrow> (stream1, sent @ [resp], Err err)
              | (stream1, None) \<Rightarrow>
                  (case srv_receive calls stream1 of
                     (stream2, Err err) \<Rightarrow> (stream2, sent @ [resp], Err err)
                   | (stream2, Panic p) \<Rightarrow> (stream2, sent @ [resp], Panic p)
                   | (stream2, Ok req2) \<Rightarrow>
                       (case GetSchnorrProofData req2 of
                          None \<Rightarrow> (stream2, sent @ [resp], Panic NilPointerDereference)
                        | Some sProofData \<Rightarrow>
                            let z = SetBytes (spd_Z sProofData);
                                trapdoor = SetBytes (spd_Trapdoor sProofData);
                                (verifier3, valid) = sv_Verify calls verifier2 z trapdoor;
                                resp2 = Message_of (Message_Status valid)
                            in (case srv_send calls stream2 resp2 of
                                  (stream3, Some err) \<Rightarrow> (stream3, sent @ [resp, resp2], Err err)
                                | (stream3, None) \<Rightarrow> (stream3, sent @ [resp, resp2], Ok ()))))))"

definition SchnorrEC ::
  "('v, 'st, 'curve) server_calls \<Rightarrow> Message \<Rightarrow> ProtocolType \<Rightarrow> 'st \<Rightarrow> 'curve \<Rightarrow>
   'st \<times> Message list \<times> unit outcome" where
  "SchnorrEC calls req protocolType stream curve =
     (let verifier = sv_NewSchnorrECVerifier calls curve protocolType
      in if protocolType \<noteq> Sigma
         then
           (case GetEcGroupElement req of
              None \<Rightarrow> (stream, [], Panic NilPointerDereference)
            | Some ecge \<Rightarrow>
                let h = ToECGroupElement ecge;
                    (verifier1, commitment) = sv_GetOpeningMsgReply calls verifier h;
                    pb_ecge = ToPbECGroupElement commitment;
                    resp = Message_of (Message_EcGroupElement pb_ecge)
                in (case srv_send calls stream resp of
                      (stream1, Some err) \<Rightarrow> (stream1, [resp], Err err)
                    | (stream1, None) \<Rightarrow>
                        (case srv_receive calls stream1 of
                           (stream2, Err err) \<Rightarrow> (stream2, [resp], Err err)
                         | (stream2, Panic p) \<Rightarrow> (stream2, [resp], Panic p)
                         | (stream2, Ok req1) \<Rightarrow>
                             SchnorrEC_proof calls verifier1 req1 stream2 [resp])))
         else SchnorrEC_proof calls verifier req stream [])"

text \<open>
  The certificate client (the unnamed source file of package \<open>client\<close>). Its prover is
  created with \<open>types.Sigma\<close>. What it calls and the sources do not hold are parameters:
  the Schnorr prover of package \<open>dlogproofs\<close> (over a prover state \<open>'p\<close>),
  exponentiation in the prover's group, and \<open>getResponseTo\<close> with \<open>openStream\<close> and
  \<open>closeStream\<close> of the generic client (over a connection state \<open>'c\<close>).
\<close>

record ('p, 'c) client_calls =
  cl_GetProofRandomData :: "'p \<Rightarrow> int \<Rightarrow> int \<Rightarrow> 'p \<times> int"
  cl_GetProofData :: "'p \<Rightarrow> int \<Rightarrow> 'p \<times> int \<times> int option"
  cl_Group_Exp :: "int \<Rightarrow> int \<Rightarrow> int"
  cl_openStream :: "'c \<Rightarrow> 'c"
  cl_closeStream :: "'c \<Rightarrow> 'c"
  cl_getResponseTo :: "'c \<Rightarrow> Message \<Rightarrow> 'c \<times> Message outcome"

record Pseudonym =
  nym_A :: int
  nym_B :: int

record CACertificate =
  cert_BlindedA :: int
  cert_BlindedB :: int
  cert_R :: int
  cert_S :: int

definition NewCACertificate :: "int \<Rightarrow> int \<Rightarrow> int \<Rightarrow> int \<Rightarrow> CACertificate" where
  "NewCACertificate blindedA blindedB r s =
     \<lparr>cert_BlindedA = blindedA, cert_BlindedB = blindedB, cert_R = r, cert_S = s\<rparr>"

record ('p, 'c) PseudonymsysCAClient =
  cl_id :: "32 word"
  cl_conn :: 'c
  cl_prover :: 'p

text \<open>
  \<open>ObtainCertificate\<close> returns the client, the messages handed to \<open>getResponseTo\<close> in
  order, and the certificate or the failure. The deferred \<open>closeStream\<close> runs on every
  way out.
\<close>

definition ObtainCertificate ::
  "('p, 'c) client_calls \<Rightarrow> ('p, 'c) PseudonymsysCAClient \<Rightarrow> int \<Rightarrow> Pseudonym \<Rightarrow>
   ('p, 'c) PseudonymsysCAClient \<times> Message list \<times> CACertificate outcome" where
  "ObtainCertificate calls c userSecret nym =
     (let c0 = c\<lparr>cl_conn := cl_openStream calls (cl_conn c)\<rparr>;
          (prover1, x) = cl_GetProofRandomData calls (cl_prover c0) userSecret (nym_A nym);
          c1 = c0\<lparr>cl_prover := prover1\<rparr>;
          b = cl_Group_Exp calls (nym_A nym) userSecret;
          pRandomData = \<lparr>rd_X = Bytes x, rd_A = Bytes (nym_A nym), rd_B = Bytes b\<rparr>;
          initMsg = \<lparr>ClientId = cl_id c1, Schema = SchemaType_PSEUDONYMSYS_CA,
                     SchemaVariant = SchemaVariant_SIGMA,
                     Content = Message_SchnorrProofRandomData pRandomData\<rparr>;
          closed = (\<lambda>cl. cl\<lparr>cl_conn := cl_closeStream calls (cl_conn cl)\<rparr>)
      in case cl_getResponseTo calls (cl_conn c1) initMsg of
           (conn2, Err err) \<Rightarrow> (closed (c1\<lparr>cl_conn := conn2\<rparr>), [initMsg], Err err)
         | (conn2, Panic p) \<Rightarrow> (closed (c1\<lparr>cl_conn := conn2\<rparr>), [initMsg], Panic p)
         | (conn2, Ok resp) \<Rightarrow>
             (case GetBigint resp of
                None \<Rightarrow> (closed (c1\<lparr>cl_conn := conn2\<rparr>), [initMsg], Panic NilPointerDereference)
              | Some x1 \<Rightarrow>
                  let challenge = SetBytes x1;
                      (prover2, z, unused) = cl_GetProofData calls (cl_prover c1) challenge;
                      c2 = c1\<lparr>cl_conn := conn2, cl_prover := prover2\<rparr>;
                      trapdoor = 0;
                      msg = Message_of (Message_SchnorrProofData
                              \<lparr>spd_Z = Bytes z, spd_Trapdoor = Bytes trapdoor\<rparr>)
                  in (case cl_getResponseTo calls (cl_conn c2) msg of
                        (conn3, Err err) \<Rightarrow>
                          (closed (c2\<lparr>cl_conn := conn3\<rparr>), [initMsg, msg], Err err)
                      | (conn3, Panic p) \<Rightarrow>
                          (closed (c2\<lparr>cl_conn := conn3\<rparr>), [initMsg, msg], Panic p)
                      | (conn3, Ok resp2) \<Rightarrow>
                          (case GetPseudonymsysCaCertificate resp2 of
                             None \<Rightarrow>
                               (closed (c2\<lparr>cl_conn := conn3\<rparr>), [initMsg, msg],
                                Panic NilPointerDereference)
                           | Some cert \<Rightarrow>
                               (closed (c2\<lparr>cl_conn := conn3\<rparr>), [initMsg, msg],
                                Ok (NewCACertificate
                                      (SetBytes (pb_BlindedA cert)) (SetBytes (pb_BlindedB cert))
                                      (SetBytes (pb_R cert)) (SetBytes (pb_S cert))))))))"

section \<open>What the proofs ask of the group\<close>

text \<open>
  The group operations lifted to group elements, as the callers combine them with
  \<open>types.NewECGroupElement\<close>.
\<close>

definition el_exp :: "ECDLog \<Rightarrow> ECGroupElement \<Rightarrow> int \<Rightarrow> ECGroupElement" where
  "el_exp dlog P k = (case Exponentiate dlog (X P) (Y P) k of (x, y) \<Rightarrow> NewECGroupElement x y)"

definition el_mul :: "ECDLog \<Rightarrow> ECGroupElement \<Rightarrow> ECGroupElement \<Rightarrow> ECGroupElement" where
  "el_mul dlog P Q = (case Multiply dlog (X P) (Y P) (X Q) (Y Q) of (x, y) \<Rightarrow> NewECGroupElement x y)"

definition el_inv :: "ECDLog \<Rightarrow> ECGroupElement \<Rightarrow> ECGroupElement" where
  "el_inv dlog P = (case Inverse dlog (X P) (Y P) of (x, y) \<Rightarrow> NewECGroupElement x y)"

definition el_base :: "ECDLog \<Rightarrow> int \<Rightarrow> ECGroupElement" where
  "el_base dlog k = (case ExponentiateBaseG dlog k of (x, y) \<Rightarrow> NewECGroupElement x y)"

text \<open>
  The specification provides ``an abstract cyclic group of prime order \<open>q\<close>'' whose
  exponentiation takes scalars (non-negative integers) and reduces them internally.
  \<open>group_laws dlog G\<close> states the part of this that the completeness proof uses, for
  the elements of a carrier \<open>G\<close>: \<open>G\<close> is closed under the operations, multiplication
  is commutative and associative with a neutral element and inverses, and
  exponentiation by non-negative exponents is a homomorphism whose exponent can be
  reduced modulo the order.
\<close>

definition group_laws :: "ECDLog \<Rightarrow> ECGroupElement set \<Rightarrow> bool" where
  "group_laws dlog G \<longleftrightarrow>
     0 < OrderOfSubgroup dlog \<and>
     (\<forall>P\<in>G. \<forall>Q\<in>G. el_mul dlog P Q \<in> G) \<and>
     (\<forall>P\<in>G. el_inv dlog P \<in> G) \<and>
     (\<forall>P\<in>G. \<forall>k\<ge>0. el_exp dlog P k \<in> G) \<and>
     (\<forall>P\<in>G. \<forall>Q\<in>G. el_mul dlog P Q = el_mul dlog Q P) \<and>
     (\<forall>P\<in>G. \<forall>Q\<in>G. \<forall>R\<in>G.
        el_mul dlog (el_mul dlog P Q) R = el_mul dlog P (el_mul dlog Q R)) \<and>
     (\<exists>e\<in>G. (\<forall>P\<in>G. el_mul dlog e P = P) \<and> (\<forall>P\<in>G. el_mul dlog P (el_inv dlog P) = e)) \<and>
     (\<forall>P\<in>G. \<forall>j\<ge>0. \<forall>k\<ge>0.
        el_exp dlog P (j + k) = el_mul dlog (el_exp dlog P j) (el_exp dlog P k)) \<and>
     (\<forall>P\<in>G. \<forall>j\<ge>0. \<forall>k\<ge>0. el_exp dlog (el_exp dlog P j) k = el_exp dlog P (j * k)) \<and>
     (\<forall>P\<in>G. \<forall>k\<ge>0. el_exp dlog P (k mod OrderOfSubgroup dlog) = el_exp dlog P k)"

section \<open>A small curve to run the code on\<close>

text \<open>
  For concrete runs: the curve \<open>y\<^sup>2 = x\<^sup>3 + 2x + 2\<close> over the field of 17 elements, with
  base point \<open>(5, 1)\<close> of prime order 19. As in Go's \<open>crypto/elliptic\<close>, the point at
  infinity is written \<open>(0, 0)\<close>, addition is the affine chord-and-tangent rule, and
  a scalar multiplication reads the magnitude of its exponent (\<open>exponent.Bytes()\<close>).
\<close>

definition tiny_inv :: "int \<Rightarrow> int" where
  "tiny_inv x = (x ^ 15) mod 17"

definition tiny_add :: "int \<times> int \<Rightarrow> int \<times> int \<Rightarrow> int \<times> int" where
  "tiny_add P Q =
     (case (P, Q) of ((x1, y1), (x2, y2)) \<Rightarrow>
        if P = (0, 0) then Q
        else if Q = (0, 0) then P
        else if x1 = x2 \<and> (y1 + y2) mod 17 = 0 then (0, 0)
        else
          let lam = (if P = Q then (3 * x1 * x1 + 2) * tiny_inv (2 * y1)
                     else (y2 - y1) * tiny_inv (x2 - x1)) mod 17;
              x3 = (lam * lam - x1 - x2) mod 17;
              y3 = (lam * (x1 - x3) - y1) mod 17
          in (x3, y3))"

fun tiny_smul :: "int \<times> int \<Rightarrow> nat \<Rightarrow> int \<times> int" where
  "tiny_smul P 0 = (0, 0)"
| "tiny_smul P (Suc n) = tiny_add P (tiny_smul P n)"

definition tiny_neg :: "int \<times> int \<Rightarrow> int \<times> int" where
  "tiny_neg P = (fst P, (- snd P) mod 17)"

definition tinyDLog :: ECDLog where
  "tinyDLog =
     \<lparr>OrderOfSubgroup = 19,
      ExponentiateBaseG = (\<lambda>k. tiny_smul (5, 1) (nat \<bar>k\<bar>)),
      Exponentiate = (\<lambda>x y k. tiny_smul (x, y) (nat \<bar>k\<bar>)),
      Multiply = (\<lambda>x1 y1 x2 y2. tiny_add (x1, y1) (x2, y2)),
      Inverse = (\<lambda>x y. tiny_neg (x, y))\<rparr>"

definition tiny_table :: "(int \<times> int) list" where
  "tiny_table =
     [(0, 0), (5, 1), (6, 3), (10, 6), (3, 1), (9, 16), (16, 13), (0, 6), (13, 7), (7, 6),
      (7, 11), (13, 10), (0, 11), (16, 4), (9, 1), (3, 16), (10, 11), (6, 14), (5, 16)]"

definition tiny_pt :: "nat \<Rightarrow> int \<times> int" where
  "tiny_pt k = tiny_table ! (k mod 19)"

definition tiny_el :: "nat \<Rightarrow> ECGroupElement" where
  "tiny_el k = (case tiny_pt k of (x, y) \<Rightarrow> NewECGroupElement x y)"

definition tiny_G :: "ECGroupElement set" where
  "tiny_G = tiny_el ` {0..<19}"

section \<open>Call sequences on a partial verifier\<close>

text \<open>
  The methods a caller can apply to a \<open>PartialECDLogVerifier\<close>, in any order and any
  number of times, and the object they leave behind.
\<close>

datatype verifier_call =
    Call_SetProofRandomData ECTriple ECTriple
  | Call_GetChallenge int
  | Call_Verify int int int int

fun verifier_step :: "PartialECDLogVerifier \<Rightarrow> verifier_call \<Rightarrow> PartialECDLogVerifier" where
  "verifier_step verifier (Call_SetProofRandomData triple1 triple2) =
     SetProofRandomData verifier triple1 triple2"
| "verifier_step verifier (Call_GetChallenge rnd) = fst (GetChallenge verifier rnd)"
| "verifier_step verifier (Call_Verify c1 z1 c2 z2) = fst (Verify verifier c1 z1 c2 z2)"

definition verifier_run :: "PartialECDLogVerifier \<Rightarrow> verifier_call list \<Rightarrow> PartialECDLogVerifier" where
  "verifier_run verifier calls = foldl verifier_step verifier calls"

fun is_SetProofRandomData :: "verifier_call \<Rightarrow> bool" where
  "is_SetProofRandomData (Call_SetProofRandomData _ _) = True"
| "is_SetProofRandomData _ = False"

fun is_GetChallenge :: "verifier_call \<Rightarrow> bool" where
  "is_GetChallenge (Call_GetChallenge _) = True"
| "is_GetChallenge _ = False"

section \<open>Stand-ins for the server's and the client's collaborators\<close>

text \<open>
  For concrete runs of the server and of the client. The server side is the
  three-move verifier of the specification on the small curve: it stores \<open>(x, a, b)\<close>,
  answers with the challenge and no commitment randomness, and accepts iff
  \<open>a^z = x \<cdot> b^e\<close>; its stream is a pair of lists, the messages still to come in and
  the messages sent. The client side is the matching prover in the subgroup of order 11
  of the integers modulo 23, with a connection that hands out prepared responses.
\<close>

record sigma_verifier =
  sgv_x :: ECGroupElement
  sgv_a :: ECGroupElement
  sgv_b :: ECGroupElement
  sgv_challenge :: int

definition tiny_server_calls ::
  "int \<Rightarrow> (sigma_verifier, Message list \<times> Message list, unit) server_calls" where
  "tiny_server_calls rnd =
     \<lparr>sv_NewSchnorrECVerifier = (\<lambda>curve protocolType.
        \<lparr>sgv_x = \<lparr>X = 0, Y = 0\<rparr>, sgv_a = \<lparr>X = 0, Y = 0\<rparr>, sgv_b = \<lparr>X = 0, Y = 0\<rparr>,
         sgv_challenge = 0\<rparr>),
      sv_GetOpeningMsgReply = (\<lambda>v h. (v, h)),
      sv_SetProofRandomData = (\<lambda>v x a b. v\<lparr>sgv_x := x, sgv_a := a, sgv_b := b\<rparr>),
      sv_GetChallenge = (\<lambda>v. (v\<lparr>sgv_challenge := rnd\<rparr>, rnd, None)),
      sv_Verify = (\<lambda>v z trapdoor.
        (v, el_exp tinyDLog (sgv_a v) z =
            el_mul tinyDLog (sgv_x v) (el_exp tinyDLog (sgv_b v) (sgv_challenge v)))),
      srv_send = (\<lambda>stream msg. ((fst stream, snd stream @ [msg]), None)),
      srv_receive = (\<lambda>stream.
        case fst stream of
          [] \<Rightarrow> (stream, Err ''EOF'')
        | msg # rest \<Rightarrow> ((rest, snd stream), Ok msg))\<rparr>"

definition tiny_client_calls :: "int \<Rightarrow> (int \<times> int, Message list) client_calls" where
  "tiny_client_calls rnd =
     \<lparr>cl_GetProofRandomData = (\<lambda>p secret a. ((secret, rnd), (a ^ nat rnd) mod 23)),
      cl_GetProofData = (\<lambda>p challenge. (p, (snd p + challenge * fst p) mod 11, None)),
      cl_Group_Exp = (\<lambda>a x. (a ^ nat x) mod 23),
      cl_openStream = (\<lambda>conn. conn),
      cl_closeStream = (\<lambda>conn. conn),
      cl_getResponseTo = (\<lambda>conn msg.
        case conn of
          [] \<Rightarrow> (conn, Err ''EOF'')
        | resp # rest \<Rightarrow> (rest, Ok resp))\<rparr>"

section \<open>The small curve is a group of order 19\<close>

text \<open>
  The nineteen entries of \<open>tiny_table\<close> are the multiples of the base point; addition
  of two entries adds their indices modulo 19.
\<close>

lemma tiny_table_add:
  "list_all (\<lambda>i. list_all (\<lambda>j. tiny_add (tiny_table ! i) (tiny_table ! j) = tiny_table ! ((i + j) mod 19)) [0..<19]) [0..<19]"
  by code_simp

lemma tiny_table_neg:
  "list_all (\<lambda>i. tiny_neg (tiny_table ! i) = tiny_table ! ((18 * i) mod 19)) [0..<19]"
  by code_simp

lemma tiny_pt_add: "tiny_add (tiny_pt i) (tiny_pt j) = tiny_pt (i + j)"
proof -
  have "i mod 19 \<in> set [0..<19]" and "j mod 19 \<in> set [0..<19]" by simp_all
  with tiny_table_add
  have "tiny_add (tiny_table ! (i mod 19)) (tiny_table ! (j mod 19)) =
        tiny_table ! ((i mod 19 + j mod 19) mod 19)"
    unfolding list_all_iff by blast
  then show ?thesis by (simp add: tiny_pt_def mod_add_eq)
qed

lemma tiny_pt_neg: "tiny_neg (tiny_pt i) = tiny_pt (18 * i)"
proof -
  have "i mod 19 \<in> set [0..<19]" by simp
  with tiny_table_neg
  have "tiny_neg (tiny_table ! (i mod 19)) = tiny_table ! ((18 * (i mod 19)) mod 19)"
    unfolding list_all_iff by blast
  then show ?thesis by (simp add: tiny_pt_def mod_mult_right_eq)
qed

lemma tiny_pt_smul: "tiny_smul (tiny_pt i) k = tiny_pt (i * k)"
proof (induction k)
  case 0
  show ?case by (simp add: tiny_pt_def tiny_table_def)
next
  case (Suc k)
  then show ?case by (simp add: tiny_pt_add)
qed




lemma tiny_el_XY: "X (tiny_el k) = fst (tiny_pt k)" "Y (tiny_el k) = snd (tiny_pt k)"
  by (simp_all add: tiny_el_def NewECGroupElement_def split: prod.split)

lemma tiny_el_cong: "i mod 19 = j mod 19 \<Longrightarrow> tiny_el i = tiny_el j"
  by (simp add: tiny_el_def tiny_pt_def)

lemma tiny_el_of_pt: "(case tiny_pt k of (x, y) \<Rightarrow> NewECGroupElement x y) = tiny_el k"
  by (simp add: tiny_el_def)

lemma tiny_el_mul: "el_mul tinyDLog (tiny_el i) (tiny_el j) = tiny_el (i + j)"
  by (simp add: el_mul_def tinyDLog_def tiny_el_XY tiny_pt_add tiny_el_of_pt)

lemma tiny_el_inv: "el_inv tinyDLog (tiny_el i) = tiny_el (18 * i)"
  by (simp add: el_inv_def tinyDLog_def tiny_el_XY tiny_pt_neg tiny_el_of_pt)

lemma tiny_el_exp: "el_exp tinyDLog (tiny_el i) k = tiny_el (i * nat \<bar>k\<bar>)"
  by (simp add: el_exp_def tinyDLog_def tiny_el_XY tiny_pt_smul tiny_el_of_pt)

lemma tiny_G_iff: "P \<in> tiny_G \<longleftrightarrow> (\<exists>i. P = tiny_el i)"
proof
  assume "P \<in> tiny_G"
  then show "\<exists>i. P = tiny_el i" by (auto simp: tiny_G_def)
next
  assume "\<exists>i. P = tiny_el i"
  then obtain i where "P = tiny_el i" ..
  then have "P = tiny_el (i mod 19)" using tiny_el_cong [of i "i mod 19"] by simp
  then show "P \<in> tiny_G" by (simp add: tiny_G_def)
qed


lemma tiny_group_laws: "group_laws tinyDLog tiny_G"
  unfolding group_laws_def
proof (intro conjI ballI allI impI)
  show "0 < OrderOfSubgroup tinyDLog" by (simp add: tinyDLog_def)
next
  fix P Q assume "P \<in> tiny_G" "Q \<in> tiny_G"
  then show "el_mul tinyDLog P Q \<in> tiny_G"
    by (auto simp: tiny_G_iff tiny_el_mul)
next
  fix P assume "P \<in> tiny_G"
  then show "el_inv tinyDLog P \<in> tiny_G" by (auto simp: tiny_G_iff tiny_el_inv)
next
  fix P and k :: int assume "P \<in> tiny_G"
  then show "el_exp tinyDLog P k \<in> tiny_G" by (auto simp: tiny_G_iff tiny_el_exp)
next
  fix P Q assume "P \<in> tiny_G" "Q \<in> tiny_G"
  then show "el_mul tinyDLog P Q = el_mul tinyDLog Q P"
    by (auto simp: tiny_G_iff tiny_el_mul add.commute)
next
  fix P Q R assume "P \<in> tiny_G" "Q \<in> tiny_G" "R \<in> tiny_G"
  then show "el_mul tinyDLog (el_mul tinyDLog P Q) R = el_mul tinyDLog P (el_mul tinyDLog Q R)"
    by (auto simp: tiny_G_iff tiny_el_mul add.assoc)
next
  show "\<exists>e\<in>tiny_G. (\<forall>P\<in>tiny_G. el_mul tinyDLog e P = P) \<and>
          (\<forall>P\<in>tiny_G. el_mul tinyDLog P (el_inv tinyDLog P) = e)"
  proof (intro bexI conjI ballI)
    show "tiny_el 0 \<in> tiny_G" by (auto simp: tiny_G_iff)
  next
    fix P assume "P \<in> tiny_G"
    then show "el_mul tinyDLog (tiny_el 0) P = P" by (auto simp: tiny_G_iff tiny_el_mul)
  next
    fix P assume "P \<in> tiny_G"
    then obtain i where P: "P = tiny_el i" by (auto simp: tiny_G_iff)
    have "(i + 18 * i) mod 19 = 0 mod 19" by simp
    then have "tiny_el (i + 18 * i) = tiny_el 0" by (rule tiny_el_cong)
    then show "el_mul tinyDLog P (el_inv tinyDLog P) = tiny_el 0"
      by (simp add: P tiny_el_inv tiny_el_mul)
  qed
next
  fix P and j k :: int assume "P \<in> tiny_G" "0 \<le> j" "0 \<le> k"
  then show "el_exp tinyDLog P (j + k) = el_mul tinyDLog (el_exp tinyDLog P j) (el_exp tinyDLog P k)"
    by (auto simp: tiny_G_iff tiny_el_exp tiny_el_mul nat_add_distrib algebra_simps)
next
  fix P and j k :: int assume "P \<in> tiny_G" "0 \<le> j" "0 \<le> k"
  then show "el_exp tinyDLog (el_exp tinyDLog P j) k = el_exp tinyDLog P (j * k)"
    by (auto simp: tiny_G_iff tiny_el_exp nat_mult_distrib mult.assoc)
next
  fix P and k :: int assume "P \<in> tiny_G" "0 \<le> k"
  then obtain i where P: "P = tiny_el i" by (auto simp: tiny_G_iff)
  have "nat (k mod 19) = nat k mod 19" using \<open>0 \<le> k\<close> by (simp add: nat_mod_distrib)
  then have "(i * nat \<bar>k mod 19\<bar>) mod 19 = (i * nat \<bar>k\<bar>) mod 19"
    using \<open>0 \<le> k\<close> by (simp add: mod_mult_right_eq)
  then have "tiny_el (i * nat \<bar>k mod 19\<bar>) = tiny_el (i * nat \<bar>k\<bar>)" by (rule tiny_el_cong)
  then show "el_exp tinyDLog P (k mod OrderOfSubgroup tinyDLog) = el_exp tinyDLog P k"
    by (simp add: P tiny_el_exp) (simp add: tinyDLog_def)
qed

section \<open>Consequences of the group laws\<close>

lemma el_eq_iff: "NewECGroupElement x y = NewECGroupElement x' y' \<longleftrightarrow> x = x' \<and> y = y'"
  by (simp add: NewECGroupElement_def)

lemma verifyTriple_Some:
  "verifyTriple verifier (Some t) c z =
     (verifier, Ok (el_exp (v_DLog verifier) (B t) z =
                    el_mul (v_DLog verifier) (el_exp (v_DLog verifier) (C t) c) (A t)))"
  by (simp add: verifyTriple_def el_exp_def el_mul_def NewECGroupElement_def split: prod.split)

lemma verifyTriple_None:
  "verifyTriple verifier None c z = (verifier, Panic NilPointerDereference)"
  by (simp add: verifyTriple_def)

lemma GetProofRandomData_el:
  "GetProofRandomData prover secret1 a1 b1 a2 b2 rnd_r1 rnd_c2 rnd_z2 rnd_ord =
     (let dlog = p_DLog prover;
          prover' = prover\<lparr>p_a1 := Some a1, p_a2 := Some a2, p_secret1 := Some secret1,
                            p_r1 := Some rnd_r1, p_c2 := Some rnd_c2, p_z2 := Some rnd_z2\<rparr>;
          triple1 = NewECTriple (el_exp dlog a1 rnd_r1) a1 b1;
          triple2 = NewECTriple
                      (el_mul dlog (el_exp dlog a2 rnd_z2) (el_inv dlog (el_exp dlog b2 rnd_c2)))
                      a2 b2
      in if rnd_ord = 0 then (prover'\<lparr>p_ord := 0\<rparr>, triple1, triple2)
         else (prover'\<lparr>p_ord := 1\<rparr>, triple2, triple1))"
  by (simp add: GetProofRandomData_def el_exp_def el_mul_def el_inv_def NewECGroupElement_def
      Let_def split: prod.split)

lemma group_laws_order: "group_laws dlog G \<Longrightarrow> 0 < OrderOfSubgroup dlog"
  unfolding group_laws_def by (elim conjE)

lemma group_laws_mul_closed:
  "group_laws dlog G \<Longrightarrow> P \<in> G \<Longrightarrow> Q \<in> G \<Longrightarrow> el_mul dlog P Q \<in> G"
  unfolding group_laws_def by (elim conjE) (rule bspec, rule bspec)

lemma group_laws_inv_closed: "group_laws dlog G \<Longrightarrow> P \<in> G \<Longrightarrow> el_inv dlog P \<in> G"
  unfolding group_laws_def by (elim conjE) (rule bspec)

lemma group_laws_exp_closed:
  "group_laws dlog G \<Longrightarrow> P \<in> G \<Longrightarrow> 0 \<le> k \<Longrightarrow> el_exp dlog P k \<in> G"
  unfolding group_laws_def by (elim conjE) blast

lemma group_laws_comm:
  "group_laws dlog G \<Longrightarrow> P \<in> G \<Longrightarrow> Q \<in> G \<Longrightarrow> el_mul dlog P Q = el_mul dlog Q P"
  unfolding group_laws_def by (elim conjE) (rule bspec, rule bspec)

lemma group_laws_assoc:
  "group_laws dlog G \<Longrightarrow> P \<in> G \<Longrightarrow> Q \<in> G \<Longrightarrow> R \<in> G \<Longrightarrow>
   el_mul dlog (el_mul dlog P Q) R = el_mul dlog P (el_mul dlog Q R)"
  unfolding group_laws_def by (elim conjE) (rule bspec, rule bspec, rule bspec)

lemma group_laws_neutral:
  "group_laws dlog G \<Longrightarrow>
   \<exists>e\<in>G. (\<forall>P\<in>G. el_mul dlog e P = P) \<and> (\<forall>P\<in>G. el_mul dlog P (el_inv dlog P) = e)"
  unfolding group_laws_def by (elim conjE)

lemma group_laws_exp_add:
  "group_laws dlog G \<Longrightarrow> P \<in> G \<Longrightarrow> 0 \<le> j \<Longrightarrow> 0 \<le> k \<Longrightarrow>
   el_exp dlog P (j + k) = el_mul dlog (el_exp dlog P j) (el_exp dlog P k)"
  unfolding group_laws_def by (elim conjE) blast

lemma group_laws_exp_exp:
  "group_laws dlog G \<Longrightarrow> P \<in> G \<Longrightarrow> 0 \<le> j \<Longrightarrow> 0 \<le> k \<Longrightarrow>
   el_exp dlog (el_exp dlog P j) k = el_exp dlog P (j * k)"
  unfolding group_laws_def by (elim conjE) blast

lemma group_laws_exp_mod:
  "group_laws dlog G \<Longrightarrow> P \<in> G \<Longrightarrow> 0 \<le> k \<Longrightarrow>
   el_exp dlog P (k mod OrderOfSubgroup dlog) = el_exp dlog P k"
  unfolding group_laws_def by (elim conjE) blast

lemma real_branch_eq:
  assumes laws: "group_laws dlog G" and a: "a \<in> G"
    and s: "0 \<le> s" and c: "0 \<le> c" and r: "0 \<le> r"
  shows "el_exp dlog a ((c * s + r) mod OrderOfSubgroup dlog) =
         el_mul dlog (el_exp dlog (el_exp dlog a s) c) (el_exp dlog a r)"
proof -
  have cs: "0 \<le> c * s" using s c by simp
  then have "0 \<le> c * s + r" using r by simp
  with laws a have "el_exp dlog a ((c * s + r) mod OrderOfSubgroup dlog) = el_exp dlog a (c * s + r)"
    by (rule group_laws_exp_mod)
  also from laws a cs r have "\<dots> = el_mul dlog (el_exp dlog a (c * s)) (el_exp dlog a r)"
    by (rule group_laws_exp_add)
  also from laws a s c have "el_exp dlog a (c * s) = el_exp dlog (el_exp dlog a s) c"
    by (simp add: group_laws_exp_exp mult.commute)
  finally show ?thesis .
qed

lemma simulated_branch_eq:
  assumes laws: "group_laws dlog G" and U: "U \<in> G" and V: "V \<in> G"
  shows "el_mul dlog V (el_mul dlog U (el_inv dlog V)) = U"
proof -
  from group_laws_neutral [OF laws]
  obtain e where e: "e \<in> G" "\<forall>P\<in>G. el_mul dlog e P = P"
      "\<forall>P\<in>G. el_mul dlog P (el_inv dlog P) = e"
    by blast
  note closed = group_laws_mul_closed [OF laws]
    and comm = group_laws_comm [OF laws]
    and assoc = group_laws_assoc [OF laws]
  have iV: "el_inv dlog V \<in> G" using laws V by (rule group_laws_inv_closed)
  have "el_mul dlog V (el_mul dlog U (el_inv dlog V)) = el_mul dlog (el_mul dlog U (el_inv dlog V)) V"
    using V U iV by (simp add: comm closed)
  also have "\<dots> = el_mul dlog U (el_mul dlog (el_inv dlog V) V)"
    using U iV V by (rule assoc)
  also have "el_mul dlog (el_inv dlog V) V = el_mul dlog V (el_inv dlog V)"
    using iV V by (rule comm)
  also have "\<dots> = e" using e(3) V by blast
  also have "el_mul dlog U e = el_mul dlog e U" using U e(1) by (rule comm)
  also have "\<dots> = U" using e(2) U by blast
  finally show ?thesis .
qed

section \<open>The partial proof in terms of group elements\<close>

lemma GetProofData_set:
  assumes "p_c2 prover = Some c2" "p_secret1 prover = Some secret1" "p_r1 prover = Some r1"
    "p_z2 prover = Some z2" "OrderOfSubgroup (p_DLog prover) \<noteq> 0"
  shows "GetProofData prover challenge =
     (prover,
      Ok (let c1 = c2 XOR challenge;
              z1 = (c1 * secret1 + r1) mod \<bar>OrderOfSubgroup (p_DLog prover)\<bar>
          in if p_ord prover = 0 then (c1, z1, c2, z2) else (c2, z2, c1, z1)))"
  using assms by (simp add: GetProofData_def big_Mod_def GetOrderOfSubgroup_def Let_def)

lemma Verify_set:
  assumes "v_challenge verifier = Some e" "v_triple1 verifier = Some t1"
    "v_triple2 verifier = Some t2"
  shows "Verify verifier c1 z1 c2 z2 =
     (verifier,
      Ok (c1 XOR c2 = e \<and>
          el_exp (v_DLog verifier) (B t1) z1 =
            el_mul (v_DLog verifier) (el_exp (v_DLog verifier) (C t1) c1) (A t1) \<and>
          el_exp (v_DLog verifier) (B t2) z2 =
            el_mul (v_DLog verifier) (el_exp (v_DLog verifier) (C t2) c2) (A t2)))"
  using assms by (auto simp add: Verify_def verifyTriple_Some Let_def)

lemma ProvePartialECDLogKnowledge_el:
  assumes "OrderOfSubgroup dlog \<noteq> 0"
  shows "ProvePartialECDLogKnowledge dlog secret1 a1 a2 b2 rnd_r1 rnd_c2 rnd_z2 rnd_ord rnd_e =
     Ok (let c1 = rnd_c2 XOR rnd_e;
             z1 = (c1 * secret1 + rnd_r1) mod \<bar>OrderOfSubgroup dlog\<bar>;
             b1 = el_exp dlog a1 secret1;
             x1 = el_exp dlog a1 rnd_r1;
             x2 = el_mul dlog (el_exp dlog a2 rnd_z2) (el_inv dlog (el_exp dlog b2 rnd_c2));
             ok1 = (el_exp dlog a1 z1 = el_mul dlog (el_exp dlog b1 c1) x1);
             ok2 = (el_exp dlog a2 rnd_z2 = el_mul dlog (el_exp dlog b2 rnd_c2) x2)
         in if rnd_ord = 0 then c1 XOR rnd_c2 = rnd_e \<and> ok1 \<and> ok2
            else rnd_c2 XOR c1 = rnd_e \<and> ok2 \<and> ok1)"
proof -
  obtain b1X b1Y where b1: "Exponentiate dlog (X a1) (Y a1) secret1 = (b1X, b1Y)"
    by (cases "Exponentiate dlog (X a1) (Y a1) secret1")
  then have b1': "el_exp dlog a1 secret1 = NewECGroupElement b1X b1Y"
    by (simp add: el_exp_def)
  show ?thesis
    using assms
    by (simp add: ProvePartialECDLogKnowledge_def NewPartialECDLogProver_def
        NewPartialECDLogVerifier_def b1 b1' GetProofRandomData_el SetProofRandomData_def
        GetChallenge_def GetProofData_def big_Mod_def GetOrderOfSubgroup_def Verify_def
        verifyTriple_Some NewECTriple_def Let_def)
qed

section \<open>Completeness of the partial proof\<close>

text \<open>
  C1. Completeness of the partial (OR) proof: in a group that satisfies \<open>group_laws\<close>,
  for group elements \<open>a1\<close>, \<open>a2\<close>, \<open>b2\<close>, a secret \<open>secret1\<close> that is a scalar
  (non-negative), with \<open>b1 = a1^secret1\<close> computed by the run itself, the honest run
  composed by \<open>ProvePartialECDLogKnowledge\<close> returns true. This holds for either value
  of the ordering bit (\<open>rnd_ord\<close> is arbitrary) and for all non-negative samples
  \<open>r1\<close>, \<open>c2\<close>, \<open>z2\<close> and challenge \<open>e\<close>, in particular for those in \<open>[0, q)\<close>.
\<close>

theorem partial_completeness:
  assumes laws: "group_laws dlog G"
    and a1: "a1 \<in> G" and a2: "a2 \<in> G" and b2: "b2 \<in> G"
    and s: "0 \<le> secret1"
    and r1: "0 \<le> rnd_r1" and c2: "0 \<le> rnd_c2" and z2: "0 \<le> rnd_z2" and e: "0 \<le> rnd_e"
  shows "ProvePartialECDLogKnowledge dlog secret1 a1 a2 b2 rnd_r1 rnd_c2 rnd_z2 rnd_ord rnd_e
         = Ok True"
proof -
  define q where "q = OrderOfSubgroup dlog"
  have q: "0 < q" unfolding q_def using laws by (rule group_laws_order)
  define c1 where "c1 = rnd_c2 XOR rnd_e"
  define z1 where "z1 = (c1 * secret1 + rnd_r1) mod q"
  define b1 where "b1 = el_exp dlog a1 secret1"
  define x1 where "x1 = el_exp dlog a1 rnd_r1"
  define x2 where "x2 = el_mul dlog (el_exp dlog a2 rnd_z2) (el_inv dlog (el_exp dlog b2 rnd_c2))"
  have c1_nonneg: "0 \<le> c1" unfolding c1_def using c2 e by simp
  have real: "el_exp dlog a1 z1 = el_mul dlog (el_exp dlog b1 c1) x1"
    unfolding z1_def b1_def x1_def q_def
    using laws a1 s c1_nonneg r1 by (rule real_branch_eq)
  have U: "el_exp dlog a2 rnd_z2 \<in> G" using laws a2 z2 by (rule group_laws_exp_closed)
  have V: "el_exp dlog b2 rnd_c2 \<in> G" using laws b2 c2 by (rule group_laws_exp_closed)
  have sim: "el_exp dlog a2 rnd_z2 = el_mul dlog (el_exp dlog b2 rnd_c2) x2"
    unfolding x2_def using simulated_branch_eq [OF laws U V] by simp
  have xor: "c1 XOR rnd_c2 = rnd_e" "rnd_c2 XOR c1 = rnd_e"
    unfolding c1_def by (simp_all add: xor.commute xor.left_commute)
  have absq: "\<bar>OrderOfSubgroup dlog\<bar> = q" using q by (simp add: q_def)
  have "OrderOfSubgroup dlog \<noteq> 0" using q by (simp add: q_def)
  then show ?thesis
    using real sim xor
    unfolding c1_def z1_def b1_def x1_def x2_def
    by (simp add: ProvePartialECDLogKnowledge_el absq Let_def q_def)
qed


theorem partial_completeness_witness:
  "ProvePartialECDLogKnowledge tinyDLog 7 (tiny_el 1) (tiny_el 2) (tiny_el 10) 3 11 4 0 9 = Ok True \<and>
   ProvePartialECDLogKnowledge tinyDLog 7 (tiny_el 1) (tiny_el 2) (tiny_el 10) 3 11 4 1 9 = Ok True"
proof -
  have G: "tiny_el 1 \<in> tiny_G" "tiny_el 2 \<in> tiny_G" "tiny_el 10 \<in> tiny_G"
    by (auto simp: tiny_G_iff)
  show ?thesis
    using partial_completeness [OF tiny_group_laws G, of 7 3 11 4 9 0]
      partial_completeness [OF tiny_group_laws G, of 7 3 11 4 9 1]
    by simp
qed

text \<open>
  The hypothesis on the secret matters for a group that reads the magnitude of a
  negative exponent, as the small curve does: with the secret \<open>-7\<close> the run computes
  \<open>b1 = a1^7\<close> but reduces the response from \<open>c1 \<cdot> (-7) + r1\<close>, and the verifier
  answers false.
\<close>

lemma partial_negative_secret:
  "ProvePartialECDLogKnowledge tinyDLog (- 7) (tiny_el 1) (tiny_el 2) (tiny_el 10) 3 11 4 0 9
   = Ok False"
  by code_simp

section \<open>The challenge is split by exclusive or\<close>

text \<open>
  C2. Challenge-XOR law: whatever \<open>GetProofRandomData\<close> was given and whatever it
  sampled (either value of the ordering bit included), \<open>GetProofData\<close> on the
  resulting prover returns four scalars \<open>(c1, z1, c2, z2)\<close> with \<open>c1 XOR c2\<close> equal
  to the challenge, bit for bit. This is the value the verifier stored in
  \<open>GetChallenge\<close>, so the comparison at the head of \<open>Verify\<close> succeeds: on a
  verifier that holds the two triples and this challenge, the answer of \<open>Verify\<close> is
  the conjunction of the two triple checks. The order of the group must not be zero, or
  \<open>big.Int.Mod\<close> panics before anything is returned.
\<close>

theorem challenge_xor_law:
  assumes "OrderOfSubgroup (p_DLog prover) \<noteq> 0"
  shows "\<exists>c1 z1 c2 z2.
     snd (GetProofData
            (fst (GetProofRandomData prover secret1 a1 b1 a2 b2 rnd_r1 rnd_c2 rnd_z2 rnd_ord))
            rnd_e) = Ok (c1, z1, c2, z2) \<and>
     c1 XOR c2 = rnd_e \<and>
     v_challenge (fst (GetChallenge (SetProofRandomData verifier t1 t2) rnd_e)) = Some (c1 XOR c2) \<and>
     snd (Verify (fst (GetChallenge (SetProofRandomData verifier t1 t2) rnd_e)) c1 z1 c2 z2) =
       Ok (snd (verifyTriple verifier (Some t1) c1 z1) = Ok True \<and>
           snd (verifyTriple verifier (Some t2) c2 z2) = Ok True)"
proof -
  define V where "V = fst (GetChallenge (SetProofRandomData verifier t1 t2) rnd_e)"
  have V: "v_challenge V = Some rnd_e" "v_triple1 V = Some t1" "v_triple2 V = Some t2"
    "v_DLog V = v_DLog verifier"
    by (simp_all add: V_def GetChallenge_def SetProofRandomData_def)
  have verify: "snd (Verify V c1 z1 c2 z2) =
      Ok (c1 XOR c2 = rnd_e \<and> snd (verifyTriple verifier (Some t1) c1 z1) = Ok True \<and>
          snd (verifyTriple verifier (Some t2) c2 z2) = Ok True)" for c1 z1 c2 z2
    by (simp add: Verify_set [OF V(1-3)] V(4) verifyTriple_Some)
  show ?thesis
  proof (cases "rnd_ord = 0")
    case True
    have "(rnd_c2 XOR rnd_e) XOR rnd_c2 = rnd_e"
      by (simp add: xor.commute xor.left_commute)
    with True assms show ?thesis
      unfolding V_def [symmetric]
      by (simp add: GetProofRandomData_el GetProofData_def big_Mod_def GetOrderOfSubgroup_def
          Let_def V(1) verify)
  next
    case False
    have "rnd_c2 XOR (rnd_c2 XOR rnd_e) = rnd_e"
      by (simp add: xor.left_commute)
    with False assms show ?thesis
      unfolding V_def [symmetric]
      by (simp add: GetProofRandomData_el GetProofData_def big_Mod_def GetOrderOfSubgroup_def
          Let_def V(1) verify)
  qed
qed

theorem challenge_xor_law_witness:
  "\<exists>c1 z1 c2 z2.
     snd (GetProofData
            (fst (GetProofRandomData (NewPartialECDLogProver tinyDLog) 7
                    (tiny_el 1) (tiny_el 7) (tiny_el 2) (tiny_el 10) 3 11 4 1))
            9) = Ok (c1, z1, c2, z2) \<and>
     c1 XOR c2 = 9 \<and>
     v_challenge (fst (GetChallenge (SetProofRandomData (NewPartialECDLogVerifier tinyDLog)
        (NewECTriple (tiny_el 4) (tiny_el 2) (tiny_el 10))
        (NewECTriple (tiny_el 3) (tiny_el 1) (tiny_el 7))) 9)) = Some (c1 XOR c2)"
  using challenge_xor_law [of "NewPartialECDLogProver tinyDLog" 7 "tiny_el 1" "tiny_el 7"
      "tiny_el 2" "tiny_el 10" 3 11 4 1 9 "NewPartialECDLogVerifier tinyDLog"
      "NewECTriple (tiny_el 4) (tiny_el 2) (tiny_el 10)"
      "NewECTriple (tiny_el 3) (tiny_el 1) (tiny_el 7)"]
  by (auto simp add: NewPartialECDLogProver_def tinyDLog_def)

section \<open>The range check of the committer\<close>

lemma GetCommitMsg_out_of_range:
  "val > OrderOfSubgroup (c_dLog committer) \<or> val < 0 \<Longrightarrow>
   GetCommitMsg committer val rnd = (committer, Err out_of_range_msg)"
  by (simp add: GetCommitMsg_def)

lemma GetCommitMsg_in_range:
  assumes "0 \<le> val" "val \<le> OrderOfSubgroup (c_dLog committer)"
  shows "GetCommitMsg committer val rnd =
     (committer\<lparr>c_r := Some rnd, c_committedValue := Some val\<rparr>,
      case c_h committer of
        None \<Rightarrow> Panic NilPointerDereference
      | Some el \<Rightarrow>
          Ok (el_mul (c_dLog committer) (el_base (c_dLog committer) val)
                (el_exp (c_dLog committer) el rnd)))"
  using assms
  by (simp add: GetCommitMsg_def el_mul_def el_base_def el_exp_def NewECGroupElement_def
      Let_def split: prod.split option.split)

text \<open>
  C3. The specification asks for the out-of-range error exactly when \<open>v\<close> is outside
  \<open>[0, q)\<close>. The guard of \<open>GetCommitMsg\<close> is \<open>val.Cmp(q) == 1\<close>, so \<open>v = q\<close> gets
  through, although the error message names \<open>Z_q\<close>. On the curve of order 19, with
  \<open>h = (10, 6)\<close> and the sample \<open>r = 5\<close>: committing to 19 returns a commitment, stores
  19 as the committed value, and the commitment is the one of the value 0.
\<close>

theorem GetCommitMsg_accepts_q:
  "snd (GetCommitMsg (SetH (NewPedersenECCommitter (\<lambda>_. tinyDLog) ()) \<lparr>X = 10, Y = 6\<rparr>) 19 5)
     = Ok \<lparr>X = 3, Y = 16\<rparr> \<and>
   c_committedValue
     (fst (GetCommitMsg (SetH (NewPedersenECCommitter (\<lambda>_. tinyDLog) ()) \<lparr>X = 10, Y = 6\<rparr>) 19 5))
     = Some (OrderOfSubgroup tinyDLog) \<and>
   snd (GetCommitMsg (SetH (NewPedersenECCommitter (\<lambda>_. tinyDLog) ()) \<lparr>X = 10, Y = 6\<rparr>) 0 5)
     = Ok \<lparr>X = 3, Y = 16\<rparr>"
  by code_simp

section \<open>Commit, decommit, check\<close>

lemma CheckDecommitment_stored:
  assumes "s_commitment s = Some cm"
  shows "CheckDecommitment s rnd val =
     (s, Ok (el_mul (s_dLog s) (el_base (s_dLog s) val) (el_exp (s_dLog s) (s_h s) rnd) = cm))"
  using assms
  by (cases cm)
    (simp add: CheckDecommitment_def el_mul_def el_base_def el_exp_def NewECGroupElement_def
      Let_def split: prod.split)

text \<open>
  C4. Round trip: a receiver and a committer are built on the same curve, the committer
  takes \<open>h\<close> from the receiver's \<open>GetH\<close>, and \<open>0 \<le> v < q\<close>. Then \<open>GetCommitMsg v\<close>
  returns a commitment \<open>c = g^v \<cdot> h^r\<close>, \<open>GetDecommitMsg\<close> returns the stored pair
  \<open>(v, r)\<close>, and the receiver, after \<open>SetCommitment c\<close>, answers
  \<open>CheckDecommitment r v\<close> with true.
\<close>

theorem pedersen_round_trip:
  assumes "0 \<le> v" "v < OrderOfSubgroup (NewECDLog curve)"
  shows "\<exists>c. 
     snd (GetCommitMsg (SetH (NewPedersenECCommitter NewECDLog curve)
                          (snd (GetH (NewPedersenECReceiver NewECDLog curve rnd_a)))) v rnd_r)
       = Ok c \<and>
     c = el_mul (NewECDLog curve) (el_base (NewECDLog curve) v)
           (el_exp (NewECDLog curve) (snd (GetH (NewPedersenECReceiver NewECDLog curve rnd_a))) rnd_r) \<and>
     snd (GetDecommitMsg
            (fst (GetCommitMsg (SetH (NewPedersenECCommitter NewECDLog curve)
                    (snd (GetH (NewPedersenECReceiver NewECDLog curve rnd_a)))) v rnd_r)))
       = (Some v, Some rnd_r) \<and>
     snd (CheckDecommitment
            (SetCommitment (fst (GetH (NewPedersenECReceiver NewECDLog curve rnd_a))) c) rnd_r v)
       = Ok True"
proof -
  define receiver where "receiver = NewPedersenECReceiver NewECDLog curve rnd_a"
  define committer where "committer = SetH (NewPedersenECCommitter NewECDLog curve) (snd (GetH receiver))"
  have dl: "c_dLog committer = NewECDLog curve" "s_dLog receiver = NewECDLog curve"
    by (simp_all add: committer_def receiver_def SetH_def NewPedersenECCommitter_def
        NewPedersenECReceiver_def Let_def split: prod.split)
  have h: "c_h committer = Some (s_h receiver)"
    by (simp add: committer_def SetH_def GetH_def)
  have "0 \<le> v" "v \<le> OrderOfSubgroup (c_dLog committer)" using assms dl by simp_all
  note commit = GetCommitMsg_in_range [OF this, of rnd_r]
  show ?thesis
    unfolding receiver_def [symmetric] committer_def [symmetric]
    by (simp add: commit h dl GetH_def GetDecommitMsg_def SetCommitment_def
        CheckDecommitment_stored)
qed

theorem pedersen_round_trip_witness:
  "\<exists>c.
     snd (GetCommitMsg (SetH (NewPedersenECCommitter (\<lambda>_. tinyDLog) ())
                          (snd (GetH (NewPedersenECReceiver (\<lambda>_. tinyDLog) () 4)))) 3 5)
       = Ok c \<and>
     c = el_mul tinyDLog (el_base tinyDLog 3)
           (el_exp tinyDLog (snd (GetH (NewPedersenECReceiver (\<lambda>_. tinyDLog) () 4))) 5) \<and>
     snd (GetDecommitMsg
            (fst (GetCommitMsg (SetH (NewPedersenECCommitter (\<lambda>_. tinyDLog) ())
                    (snd (GetH (NewPedersenECReceiver (\<lambda>_. tinyDLog) () 4)))) 3 5)))
       = (Some 3, Some 5) \<and>
     snd (CheckDecommitment
            (SetCommitment (fst (GetH (NewPedersenECReceiver (\<lambda>_. tinyDLog) () 4))) c) 5 3)
       = Ok True"
  using pedersen_round_trip [of 3 "\<lambda>_. tinyDLog" "()" 4 5]
  by (simp add: tinyDLog_def)

text \<open>
  C5. With a commitment stored, \<open>CheckDecommitment r v\<close> returns a boolean and nothing
  else: true iff the point \<open>g^v \<cdot> h^r\<close> has the \<open>X\<close> and the \<open>Y\<close> of the stored
  commitment. A mismatch is the value false, neither an error nor a panic, and the
  receiver is returned as it was.
\<close>

theorem CheckDecommitment_accepts_iff:
  assumes "s_commitment s = Some cm"
  shows "CheckDecommitment s rnd val =
     (s, Ok (X (el_mul (s_dLog s) (el_base (s_dLog s) val) (el_exp (s_dLog s) (s_h s) rnd)) = X cm \<and>
             Y (el_mul (s_dLog s) (el_base (s_dLog s) val) (el_exp (s_dLog s) (s_h s) rnd)) = Y cm))"
proof -
  have "(el_mul (s_dLog s) (el_base (s_dLog s) val) (el_exp (s_dLog s) (s_h s) rnd) = cm) =
        (X (el_mul (s_dLog s) (el_base (s_dLog s) val) (el_exp (s_dLog s) (s_h s) rnd)) = X cm \<and>
         Y (el_mul (s_dLog s) (el_base (s_dLog s) val) (el_exp (s_dLog s) (s_h s) rnd)) = Y cm)"
    by (cases cm, cases "el_mul (s_dLog s) (el_base (s_dLog s) val) (el_exp (s_dLog s) (s_h s) rnd)")
      simp
  with CheckDecommitment_stored [OF assms, of rnd val] show ?thesis by simp
qed

theorem CheckDecommitment_accepts_iff_witness:
  "snd (CheckDecommitment
          (SetCommitment (NewPedersenECReceiver (\<lambda>_. tinyDLog) () 4) \<lparr>X = 3, Y = 1\<rparr>) 5 3)
     = Ok True \<and>
   snd (CheckDecommitment
          (SetCommitment (NewPedersenECReceiver (\<lambda>_. tinyDLog) () 4) \<lparr>X = 3, Y = 16\<rparr>) 5 3)
     = Ok False"
proof -
  let ?s1 = "SetCommitment (NewPedersenECReceiver (\<lambda>_. tinyDLog) () 4) \<lparr>X = 3, Y = 1\<rparr>"
  let ?s2 = "SetCommitment (NewPedersenECReceiver (\<lambda>_. tinyDLog) () 4) \<lparr>X = 3, Y = 16\<rparr>"
  have p1: "el_mul (s_dLog ?s1) (el_base (s_dLog ?s1) 3) (el_exp (s_dLog ?s1) (s_h ?s1) 5) =
            \<lparr>X = 3, Y = 1\<rparr>"
    by code_simp
  have p2: "el_mul (s_dLog ?s2) (el_base (s_dLog ?s2) 3) (el_exp (s_dLog ?s2) (s_h ?s2) 5) =
            \<lparr>X = 3, Y = 1\<rparr>"
    by code_simp
  have c1: "s_commitment ?s1 = Some \<lparr>X = 3, Y = 1\<rparr>"
    and c2: "s_commitment ?s2 = Some \<lparr>X = 3, Y = 16\<rparr>"
    by (simp_all add: SetCommitment_def)
  show ?thesis
    using CheckDecommitment_accepts_iff [OF c1, of 5 3] CheckDecommitment_accepts_iff [OF c2, of 5 3]
    by (simp only: p1 p2) simp
qed

section \<open>Committing before the key is known\<close>




section \<open>Verification does not write\<close>

lemma Verify_fst: "fst (Verify verifier c1 z1 c2 z2) = verifier"
  by (simp add: Verify_def verifyTriple_def Let_def split: option.split prod.split)

lemma CheckDecommitment_fst: "fst (CheckDecommitment s rnd val) = s"
  by (simp add: CheckDecommitment_def Let_def split: option.split prod.split)

text \<open>
  C8. \<open>Verify\<close> returns the verifier it was given, and a second call with the same
  four scalars returns the same outcome; likewise \<open>CheckDecommitment\<close> and the
  receiver. Neither method writes a field.
\<close>

theorem verification_is_pure:
  "fst (Verify verifier c1 z1 c2 z2) = verifier \<and>
   snd (Verify (fst (Verify verifier c1 z1 c2 z2)) c1 z1 c2 z2) = snd (Verify verifier c1 z1 c2 z2) \<and>
   fst (CheckDecommitment s rnd val) = s \<and>
   snd (CheckDecommitment (fst (CheckDecommitment s rnd val)) rnd val) =
     snd (CheckDecommitment s rnd val)"
  by (simp add: Verify_fst CheckDecommitment_fst)

section \<open>The receiver's key\<close>

lemma receiver_step_keeps:
  "s_h (receiver_step s call) = s_h s \<and> s_a (receiver_step s call) = s_a s \<and>
   s_dLog (receiver_step s call) = s_dLog s"
  by (cases call) (simp_all add: GetH_def GetTrapdoor_def SetCommitment_def CheckDecommitment_fst)

lemma receiver_run_keeps:
  "s_h (receiver_run s calls) = s_h s \<and> s_a (receiver_run s calls) = s_a s \<and>
   s_dLog (receiver_run s calls) = s_dLog s"
  unfolding receiver_run_def
proof (induction calls arbitrary: s)
  case Nil
  show ?case by simp
next
  case (Cons call calls)
  show ?case using Cons.IH [of "receiver_step s call"] receiver_step_keeps [of s call]
    by simp
qed

text \<open>
  C9. For a receiver made by \<open>NewPedersenECReceiver\<close>: \<open>GetH\<close> returns \<open>g\<close> raised to
  what \<open>GetTrapdoor\<close> returns; after any sequence of receiver operations both are
  what they were; and a committer on the same curve whose \<open>h\<close> is set from the
  receiver's \<open>GetH\<close> answers \<open>VerifyTrapdoor\<close> of the receiver's trapdoor with true.
\<close>

theorem receiver_key_invariant:
  "snd (GetH (NewPedersenECReceiver NewECDLog curve rnd_a)) =
     el_base (NewECDLog curve) (snd (GetTrapdoor (NewPedersenECReceiver NewECDLog curve rnd_a))) \<and>
   snd (GetH (receiver_run (NewPedersenECReceiver NewECDLog curve rnd_a) calls)) =
     snd (GetH (NewPedersenECReceiver NewECDLog curve rnd_a)) \<and>
   snd (GetTrapdoor (receiver_run (NewPedersenECReceiver NewECDLog curve rnd_a) calls)) =
     snd (GetTrapdoor (NewPedersenECReceiver NewECDLog curve rnd_a)) \<and>
   snd (VerifyTrapdoor
          (SetH (NewPedersenECCommitter NewECDLog curve)
             (snd (GetH (receiver_run (NewPedersenECReceiver NewECDLog curve rnd_a) calls))))
          (snd (GetTrapdoor (receiver_run (NewPedersenECReceiver NewECDLog curve rnd_a) calls))))
     = Ok True"
proof -
  define s where "s = NewPedersenECReceiver NewECDLog curve rnd_a"
  have s: "s_a s = rnd_a" "s_h s = el_base (NewECDLog curve) rnd_a"
    by (simp_all add: s_def NewPedersenECReceiver_def el_base_def NewECGroupElement_def Let_def
        split: prod.split)
  show ?thesis
    unfolding s_def [symmetric]
    by (simp add: GetH_def GetTrapdoor_def receiver_run_keeps s VerifyTrapdoor_def SetH_def
        NewPedersenECCommitter_def el_base_def NewECGroupElement_def Let_def split: prod.split)
qed

section \<open>Verify after the verifier is set up\<close>

lemma verifier_step_triples:
  "(v_triple1 (verifier_step verifier call) \<noteq> None \<and> v_triple2 (verifier_step verifier call) \<noteq> None)
   \<longleftrightarrow> is_SetProofRandomData call \<or> (v_triple1 verifier \<noteq> None \<and> v_triple2 verifier \<noteq> None)"
  by (cases call) (simp_all add: SetProofRandomData_def GetChallenge_def Verify_fst)

lemma verifier_step_triple1:
  "v_triple1 (verifier_step verifier call) \<noteq> None
   \<longleftrightarrow> is_SetProofRandomData call \<or> v_triple1 verifier \<noteq> None"
  by (cases call) (simp_all add: SetProofRandomData_def GetChallenge_def Verify_fst)

lemma verifier_step_triple2:
  "v_triple2 (verifier_step verifier call) \<noteq> None
   \<longleftrightarrow> is_SetProofRandomData call \<or> v_triple2 verifier \<noteq> None"
  by (cases call) (simp_all add: SetProofRandomData_def GetChallenge_def Verify_fst)

lemma verifier_step_challenge:
  "v_challenge (verifier_step verifier call) \<noteq> None
   \<longleftrightarrow> is_GetChallenge call \<or> v_challenge verifier \<noteq> None"
  by (cases call) (simp_all add: SetProofRandomData_def GetChallenge_def Verify_fst)

lemma verifier_run_triples:
  "(v_triple1 (verifier_run verifier calls) \<noteq> None \<and> v_triple2 (verifier_run verifier calls) \<noteq> None)
   \<longleftrightarrow> list_ex is_SetProofRandomData calls \<or> (v_triple1 verifier \<noteq> None \<and> v_triple2 verifier \<noteq> None)"
  unfolding verifier_run_def
proof (induction calls arbitrary: verifier)
  case Nil
  show ?case by simp
next
  case (Cons call calls)
  show ?case
    using Cons.IH [of "verifier_step verifier call"] verifier_step_triples [of verifier call]
    by auto
qed

lemma verifier_run_triple1:
  "v_triple1 (verifier_run verifier calls) \<noteq> None
   \<longleftrightarrow> list_ex is_SetProofRandomData calls \<or> v_triple1 verifier \<noteq> None"
  unfolding verifier_run_def
proof (induction calls arbitrary: verifier)
  case Nil
  show ?case by simp
next
  case (Cons call calls)
  show ?case
    using Cons.IH [of "verifier_step verifier call"] verifier_step_triple1 [of verifier call]
    by auto
qed

lemma verifier_run_triple2:
  "v_triple2 (verifier_run verifier calls) \<noteq> None
   \<longleftrightarrow> list_ex is_SetProofRandomData calls \<or> v_triple2 verifier \<noteq> None"
  unfolding verifier_run_def
proof (induction calls arbitrary: verifier)
  case Nil
  show ?case by simp
next
  case (Cons call calls)
  show ?case
    using Cons.IH [of "verifier_step verifier call"] verifier_step_triple2 [of verifier call]
    by auto
qed

lemma verifier_run_challenge:
  "v_challenge (verifier_run verifier calls) \<noteq> None
   \<longleftrightarrow> list_ex is_GetChallenge calls \<or> v_challenge verifier \<noteq> None"
  unfolding verifier_run_def
proof (induction calls arbitrary: verifier)
  case Nil
  show ?case by simp
next
  case (Cons call calls)
  show ?case
    using Cons.IH [of "verifier_step verifier call"] verifier_step_challenge [of verifier call]
    by auto
qed

lemma Verify_defined:
  assumes "v_challenge verifier \<noteq> None" "v_triple1 verifier \<noteq> None" "v_triple2 verifier \<noteq> None"
  shows "\<exists>b. Verify verifier c1 z1 c2 z2 = (verifier, Ok b)"
proof -
  from assms obtain e t1 t2 where
    "v_challenge verifier = Some e" "v_triple1 verifier = Some t1" "v_triple2 verifier = Some t2"
    by auto
  then show ?thesis by (simp add: Verify_set)
qed

lemma Verify_no_challenge:
  assumes "v_challenge verifier = None"
  shows "Verify verifier c1 z1 c2 z2 = (verifier, Panic NilPointerDereference)"
  using assms by (simp add: Verify_def Let_def)

lemma Verify_no_triple1:
  assumes "v_triple1 verifier = None" "v_challenge verifier = Some (c1 XOR c2)"
  shows "Verify verifier c1 z1 c2 z2 = (verifier, Panic NilPointerDereference)"
  using assms by (simp add: Verify_def verifyTriple_def Let_def)

lemma Verify_mismatch:
  assumes "v_challenge verifier = Some e" "e \<noteq> c1 XOR c2"
  shows "Verify verifier c1 z1 c2 z2 = (verifier, Ok False)"
  using assms by (auto simp add: Verify_def Let_def)

text \<open>
  C10. Take a verifier from \<open>NewPartialECDLogVerifier\<close> and apply any sequence of
  calls. If the sequence holds a \<open>SetProofRandomData\<close> and a \<open>GetChallenge\<close>, then
  \<open>Verify\<close> returns a boolean for all four scalars. If it holds no \<open>GetChallenge\<close>,
  \<open>Verify\<close> panics on the nil challenge. If it holds no \<open>SetProofRandomData\<close>, the
  triples are nil: \<open>Verify\<close> panics on the first one as soon as the scalars pass the
  comparison with the challenge, and returns false without reading a triple when they do
  not.
\<close>

theorem Verify_total_after_setup:
  assumes "verifier = verifier_run (NewPartialECDLogVerifier dlog) calls"
  shows "(list_ex is_SetProofRandomData calls \<and> list_ex is_GetChallenge calls \<longrightarrow>
            (\<exists>b. Verify verifier c1 z1 c2 z2 = (verifier, Ok b))) \<and>
         (\<not> list_ex is_GetChallenge calls \<longrightarrow>
            Verify verifier c1 z1 c2 z2 = (verifier, Panic NilPointerDereference)) \<and>
         (\<not> list_ex is_SetProofRandomData calls \<longrightarrow>
            v_triple1 verifier = None \<and> v_triple2 verifier = None \<and>
            (v_challenge verifier = Some (c1 XOR c2) \<longrightarrow>
               Verify verifier c1 z1 c2 z2 = (verifier, Panic NilPointerDereference)) \<and>
            (\<forall>e. v_challenge verifier = Some e \<and> e \<noteq> c1 XOR c2 \<longrightarrow>
               Verify verifier c1 z1 c2 z2 = (verifier, Ok False)))"
proof (intro conjI impI allI)
  assume "list_ex is_SetProofRandomData calls \<and> list_ex is_GetChallenge calls"
  then have "v_challenge verifier \<noteq> None" "v_triple1 verifier \<noteq> None" "v_triple2 verifier \<noteq> None"
    using verifier_run_challenge [of "NewPartialECDLogVerifier dlog" calls]
      verifier_run_triples [of "NewPartialECDLogVerifier dlog" calls]
    unfolding assms by simp_all
  then show "\<exists>b. Verify verifier c1 z1 c2 z2 = (verifier, Ok b)" by (rule Verify_defined)
next
  assume "\<not> list_ex is_GetChallenge calls"
  then have "v_challenge verifier = None"
    using verifier_run_challenge [of "NewPartialECDLogVerifier dlog" calls]
    unfolding assms by (simp add: NewPartialECDLogVerifier_def)
  then show "Verify verifier c1 z1 c2 z2 = (verifier, Panic NilPointerDereference)"
    by (rule Verify_no_challenge)
next
  assume "\<not> list_ex is_SetProofRandomData calls"
  then show none1: "v_triple1 verifier = None"
    using verifier_run_triple1 [of "NewPartialECDLogVerifier dlog" calls]
    unfolding assms by (simp add: NewPartialECDLogVerifier_def)
  assume "v_challenge verifier = Some (c1 XOR c2)"
  with none1 show "Verify verifier c1 z1 c2 z2 = (verifier, Panic NilPointerDereference)"
    by (simp add: Verify_no_triple1)
next
  assume "\<not> list_ex is_SetProofRandomData calls"
  then show "v_triple2 verifier = None"
    using verifier_run_triple2 [of "NewPartialECDLogVerifier dlog" calls]
    unfolding assms by (simp add: NewPartialECDLogVerifier_def)
next
  fix e
  assume "v_challenge verifier = Some e \<and> e \<noteq> c1 XOR c2"
  then show "Verify verifier c1 z1 c2 z2 = (verifier, Ok False)"
    by (simp add: Verify_mismatch)
qed

theorem Verify_total_after_setup_witness:
  "(\<exists>b. Verify (verifier_run (NewPartialECDLogVerifier tinyDLog)
                  [Call_SetProofRandomData (NewECTriple (tiny_el 3) (tiny_el 1) (tiny_el 7))
                     (NewECTriple (tiny_el 4) (tiny_el 2) (tiny_el 10)),
                   Call_GetChallenge 9]) 2 17 11 4 =
         (verifier_run (NewPartialECDLogVerifier tinyDLog)
            [Call_SetProofRandomData (NewECTriple (tiny_el 3) (tiny_el 1) (tiny_el 7))
               (NewECTriple (tiny_el 4) (tiny_el 2) (tiny_el 10)),
             Call_GetChallenge 9], Ok b)) \<and>
   Verify (verifier_run (NewPartialECDLogVerifier tinyDLog) []) 2 17 11 4 =
     (verifier_run (NewPartialECDLogVerifier tinyDLog) [], Panic NilPointerDereference) \<and>
   Verify (verifier_run (NewPartialECDLogVerifier tinyDLog) [Call_GetChallenge 9]) 2 17 11 4 =
     (verifier_run (NewPartialECDLogVerifier tinyDLog) [Call_GetChallenge 9],
      Panic NilPointerDereference) \<and>
   Verify (verifier_run (NewPartialECDLogVerifier tinyDLog) [Call_GetChallenge 9]) 2 17 12 4 =
     (verifier_run (NewPartialECDLogVerifier tinyDLog) [Call_GetChallenge 9], Ok False)"
proof -
  have x: "(2::int) XOR 11 = 9" "(9::int) \<noteq> 2 XOR 12" by simp_all
  show ?thesis
    using Verify_total_after_setup [OF refl, of
        "[Call_SetProofRandomData (NewECTriple (tiny_el 3) (tiny_el 1) (tiny_el 7))
            (NewECTriple (tiny_el 4) (tiny_el 2) (tiny_el 10)), Call_GetChallenge 9]"
        tinyDLog 2 17 11 4]
      Verify_total_after_setup [OF refl, of "[]" tinyDLog 2 17 11 4]
      Verify_total_after_setup [OF refl, of "[Call_GetChallenge 9]" tinyDLog 2 17 11 4]
      Verify_total_after_setup [OF refl, of "[Call_GetChallenge 9]" tinyDLog 2 17 12 4]
    by (simp add: verifier_run_def GetChallenge_def x)
qed

section \<open>The optional wire fields in sigma mode\<close>

lemma Bytes_zero: "Bytes 0 = []"
  by (simp add: Bytes_def nat_Bytes.simps)

lemma unat_byte: "unat (of_nat (n mod 256) :: 8 word) = n mod 256"
  by (simp add: unat_of_nat)

lemma foldl_nat_Bytes: "foldl (\<lambda>acc b. acc * 256 + unat b) 0 (nat_Bytes n) = n"
proof (induction n rule: nat_Bytes.induct)
  case (1 n)
  show ?case
  proof (cases "n = 0")
    case True
    then show ?thesis by (simp add: nat_Bytes.simps)
  next
    case False
    with 1 have "foldl (\<lambda>acc b. acc * 256 + unat b) 0 (nat_Bytes (n div 256)) = n div 256"
      by simp
    with False show ?thesis
      by (subst nat_Bytes.simps) (simp add: unat_byte)
  qed
qed

text \<open>Decoding what \<open>Bytes\<close> wrote gives the magnitude back.\<close>

lemma SetBytes_Bytes: "SetBytes (Bytes x) = \<bar>x\<bar>"
  by (simp add: SetBytes_def Bytes_def foldl_nat_Bytes)

lemma SetBytes_Bytes_zero: "SetBytes (Bytes 0) = 0"
  by (simp add: Bytes_zero SetBytes_def)

lemma SchnorrEC_proof_first:
  assumes "GetSchnorrEcProofRandomData req = Some d"
    and "sv_GetChallenge calls
           (sv_SetProofRandomData calls verifier (ToECGroupElement (ecrd_X d))
              (ToECGroupElement (ecrd_A d)) (ToECGroupElement (ecrd_B d)))
         = (verifier2, challenge, r2)"
  shows "\<exists>rest. fst (snd (SchnorrEC_proof calls verifier req stream sent)) =
           sent @ Message_of (Message_PedersenDecommitment
                    \<lparr>pd_X = Bytes challenge,
                     pd_R = Bytes (case r2 of None \<Rightarrow> 0 | Some v \<Rightarrow> v)\<rparr>) # rest"
  using assms
  by (simp add: SchnorrEC_proof_def Let_def split: prod.split option.split outcome.split)

lemma ObtainCertificate_trapdoor:
  "case ObtainCertificate calls c userSecret nym of
     (c', sent, result) \<Rightarrow>
       (\<forall>m\<in>set sent. \<forall>d. Content m = Message_SchnorrProofData d \<longrightarrow> spd_Trapdoor d = Bytes 0) \<and>
       (is_Ok result \<longrightarrow>
          (\<exists>m z. sent = [m, Message_of (Message_SchnorrProofData
                                \<lparr>spd_Z = Bytes z, spd_Trapdoor = Bytes 0\<rparr>)]))"
  by (auto simp add: ObtainCertificate_def Message_of_def Let_def
      split: prod.split option.split outcome.split)

text \<open>
  C7. Server: in sigma mode, on a request that carries the prover's random data, when
  the verifier's \<open>GetChallenge\<close> returns no randomness, the first message the server
  hands to \<open>send\<close> is a \<open>PedersenDecommitment\<close> with the challenge in \<open>X\<close> and the
  zero scalar in \<open>R\<close>. Client: every \<open>SchnorrProofData\<close> that \<open>ObtainCertificate\<close>
  sends has the zero scalar as \<open>Trapdoor\<close>, and a run that obtains a certificate has
  sent exactly one, as its second message. The zero scalar is the empty byte string and
  decodes to 0.
\<close>

theorem sigma_mode_zero_fields:
  assumes "GetSchnorrEcProofRandomData req = Some d"
    and "sv_GetChallenge calls
           (sv_SetProofRandomData calls (sv_NewSchnorrECVerifier calls curve Sigma)
              (ToECGroupElement (ecrd_X d)) (ToECGroupElement (ecrd_A d))
              (ToECGroupElement (ecrd_B d)))
         = (verifier2, challenge, None)"
  shows "(\<exists>rest. fst (snd (SchnorrEC calls req Sigma stream curve)) =
            Message_of (Message_PedersenDecommitment
              \<lparr>pd_X = Bytes challenge, pd_R = Bytes 0\<rparr>) # rest) \<and>
         (case ObtainCertificate ccalls c userSecret nym of
            (c', sent, result) \<Rightarrow>
              (\<forall>m\<in>set sent. \<forall>pd. Content m = Message_SchnorrProofData pd \<longrightarrow>
                  spd_Trapdoor pd = Bytes 0) \<and>
              (is_Ok result \<longrightarrow>
                 (\<exists>m z. sent = [m, Message_of (Message_SchnorrProofData
                                       \<lparr>spd_Z = Bytes z, spd_Trapdoor = Bytes 0\<rparr>)]))) \<and>
         Bytes 0 = [] \<and> SetBytes (Bytes 0) = 0"
proof (intro conjI)
  show "\<exists>rest. fst (snd (SchnorrEC calls req Sigma stream curve)) =
          Message_of (Message_PedersenDecommitment \<lparr>pd_X = Bytes challenge, pd_R = Bytes 0\<rparr>) # rest"
    using SchnorrEC_proof_first [OF assms, of stream "[]"]
    by (simp add: SchnorrEC_def)
  show "case ObtainCertificate ccalls c userSecret nym of
          (c', sent, result) \<Rightarrow>
            (\<forall>m\<in>set sent. \<forall>pd. Content m = Message_SchnorrProofData pd \<longrightarrow>
                spd_Trapdoor pd = Bytes 0) \<and>
            (is_Ok result \<longrightarrow>
               (\<exists>m z. sent = [m, Message_of (Message_SchnorrProofData
                                     \<lparr>spd_Z = Bytes z, spd_Trapdoor = Bytes 0\<rparr>)]))"
    by (rule ObtainCertificate_trapdoor)
  show "Bytes 0 = []" by (rule Bytes_zero)
  show "SetBytes (Bytes 0) = 0" by (rule SetBytes_Bytes_zero)
qed


theorem sigma_mode_zero_fields_witness:
  "(\<exists>rest. fst (snd (SchnorrEC (tiny_server_calls 9)
              (Message_of (Message_SchnorrEcProofRandomData
                 \<lparr>ecrd_X = ToPbECGroupElement (tiny_el 3), ecrd_A = ToPbECGroupElement (tiny_el 1),
                  ecrd_B = ToPbECGroupElement (tiny_el 7)\<rparr>))
              Sigma
              ([Message_of (Message_SchnorrProofData \<lparr>spd_Z = Bytes 9, spd_Trapdoor = Bytes 0\<rparr>)], [])
              ())) =
      Message_of (Message_PedersenDecommitment \<lparr>pd_X = Bytes 9, pd_R = Bytes 0\<rparr>) # rest) \<and>
   (\<exists>m z. fst (snd (ObtainCertificate (tiny_client_calls 3)
              \<lparr>cl_id = 1,
                cl_conn = [Message_of (Message_Bigint (Bytes 5)),
                  Message_of (Message_PseudonymsysCaCertificate
                    \<lparr>pb_BlindedA = Bytes 4, pb_BlindedB = Bytes 8, pb_R = Bytes 5, pb_S = Bytes 6\<rparr>)],
                cl_prover = (0, 0)\<rparr>
              7 \<lparr>nym_A = 2, nym_B = 13\<rparr>)) =
      [m, Message_of (Message_SchnorrProofData \<lparr>spd_Z = Bytes z, spd_Trapdoor = Bytes 0\<rparr>)])"
proof -
  let ?req = "Message_of (Message_SchnorrEcProofRandomData
                 \<lparr>ecrd_X = ToPbECGroupElement (tiny_el 3), ecrd_A = ToPbECGroupElement (tiny_el 1),
                  ecrd_B = ToPbECGroupElement (tiny_el 7)\<rparr>)"
  let ?c = "\<lparr>cl_id = 1,
             cl_conn = [Message_of (Message_Bigint (Bytes 5)),
               Message_of (Message_PseudonymsysCaCertificate
                 \<lparr>pb_BlindedA = Bytes 4, pb_BlindedB = Bytes 8, pb_R = Bytes 5, pb_S = Bytes 6\<rparr>)],
             cl_prover = (0::int, 0::int)\<rparr>"
  let ?run = "ObtainCertificate (tiny_client_calls 3) ?c 7 \<lparr>nym_A = 2, nym_B = 13\<rparr>"
  have req: "GetSchnorrEcProofRandomData ?req =
      Some \<lparr>ecrd_X = ToPbECGroupElement (tiny_el 3), ecrd_A = ToPbECGroupElement (tiny_el 1),
            ecrd_B = ToPbECGroupElement (tiny_el 7)\<rparr>"
    by (simp add: Message_of_def)
  have ch: "sv_GetChallenge (tiny_server_calls 9)
              (sv_SetProofRandomData (tiny_server_calls 9)
                 (sv_NewSchnorrECVerifier (tiny_server_calls 9) () Sigma)
                 (ToECGroupElement (ecrd_X \<lparr>ecrd_X = ToPbECGroupElement (tiny_el 3),
                    ecrd_A = ToPbECGroupElement (tiny_el 1), ecrd_B = ToPbECGroupElement (tiny_el 7)\<rparr>))
                 (ToECGroupElement (ecrd_A \<lparr>ecrd_X = ToPbECGroupElement (tiny_el 3),
                    ecrd_A = ToPbECGroupElement (tiny_el 1), ecrd_B = ToPbECGroupElement (tiny_el 7)\<rparr>))
                 (ToECGroupElement (ecrd_B \<lparr>ecrd_X = ToPbECGroupElement (tiny_el 3),
                    ecrd_A = ToPbECGroupElement (tiny_el 1), ecrd_B = ToPbECGroupElement (tiny_el 7)\<rparr>)))
            = (fst (sv_GetChallenge (tiny_server_calls 9)
                 (sv_SetProofRandomData (tiny_server_calls 9)
                 (sv_NewSchnorrECVerifier (tiny_server_calls 9) () Sigma)
                 (ToECGroupElement (ToPbECGroupElement (tiny_el 3)))
                 (ToECGroupElement (ToPbECGroupElement (tiny_el 1)))
                 (ToECGroupElement (ToPbECGroupElement (tiny_el 7))))), 9, None)"
    by (simp add: tiny_server_calls_def)
  note both = sigma_mode_zero_fields [OF req ch, of
      "([Message_of (Message_SchnorrProofData \<lparr>spd_Z = Bytes 9, spd_Trapdoor = Bytes 0\<rparr>)], [])"
      "tiny_client_calls 3" ?c 7 "\<lparr>nym_A = 2, nym_B = 13\<rparr>"]
  have ok: "is_Ok (snd (snd ?run))"
    by (simp add: ObtainCertificate_def tiny_client_calls_def Message_of_def Let_def)
  obtain c' sent result where run: "?run = (c', sent, result)"
    by (cases ?run)
  from both [THEN conjunct2, THEN conjunct1] run ok
  have "\<exists>m z. sent = [m, Message_of (Message_SchnorrProofData
                              \<lparr>spd_Z = Bytes z, spd_Trapdoor = Bytes 0\<rparr>)]"
    by simp
  with run both [THEN conjunct1] show ?thesis by simp
qed

end
